theory Spec2Isabelle
  imports Main "HOL-Library.Sublist"
begin

section \<open>Python values used by \<open>wandb/sdk/launch/docker.py\<close>\<close>

text \<open>
  Python strings are modelled as \<open>string\<close>, one \<open>char\<close> per code point. A value that
  may be \<open>None\<close> is an \<open>option\<close>. Python's truth test on such a value (\<open>if x\<close>) holds
  exactly for a string that is present and not empty.
\<close>

fun truthy :: "string option \<Rightarrow> bool" where
  "truthy None = False"
| "truthy (Some s) = (s \<noteq> [])"

text \<open>\<open>s.replace(a, b)\<close> for one-character \<open>a\<close> and \<open>b\<close>: a scan from the left.\<close>

fun replace_char :: "char \<Rightarrow> char \<Rightarrow> string \<Rightarrow> string" where
  "replace_char a b [] = []"
| "replace_char a b (c # cs) = (if c = a then b else c) # replace_char a b cs"

text \<open>
  \<open>s.split(sep)\<close> for a one-character separator: the parts between the separators,
  empty parts kept, so that a string with \<open>n\<close> separators has \<open>n + 1\<close> parts.
\<close>

fun split_on :: "char \<Rightarrow> string \<Rightarrow> string list" where
  "split_on sep [] = [[]]"
| "split_on sep (c # cs) =
     (if c = sep then [] # split_on sep cs
      else (case split_on sep cs of
              [] \<Rightarrow> [[c]]
            | p # ps \<Rightarrow> (c # p) # ps))"

datatype error =
    ExecutionException string
  | PyException string
  | ValueError
  | KeyError string
  | FileNotFoundError
  | FileExistsError
  | NotADirectoryError
  | IsADirectoryError
  | ShutilError
  | OSError
  | PermissionError
  | UnicodeDecodeError
  | EngineError string

section \<open>Tag Deriver: \<open>_get_docker_image_uri\<close>\<close>

text \<open>
  \<open>GitRepo(work_dir).last_commit\<close> belongs to \<open>wandb/sdk/lib/git.py\<close>; its answer for the
  working directory is the parameter \<open>git_commit\<close> (\<open>None\<close> when there is no commit).
\<close>

definition get_docker_image_uri :: "string option \<Rightarrow> string option \<Rightarrow> string" where
  "get_docker_image_uri repository_uri git_commit =
     (let repository_uri' =
            (if truthy repository_uri
             then replace_char (CHR '' '') (CHR ''-'') (the repository_uri)
             else ''docker-project'');
          version_string =
            (if truthy git_commit then '':'' @ take 7 (the git_commit) else '''')
      in repository_uri' @ version_string)"

text \<open>
  The normalisation as the specification words it: first the default for an empty
  repository URI, then every space of the outcome replaced by a hyphen.
\<close>

definition spec_substituted :: "string option \<Rightarrow> string" where
  "spec_substituted repository_uri =
     (case repository_uri of
        None \<Rightarrow> ''docker-project''
      | Some s \<Rightarrow> if s = [] then ''docker-project'' else s)"

definition spec_normalized :: "string option \<Rightarrow> string" where
  "spec_normalized repository_uri =
     map (\<lambda>c. if c = CHR '' '' then CHR ''-'' else c) (spec_substituted repository_uri)"

section \<open>Project descriptor and Environment Validator\<close>

type_synonym path = "string list"

text \<open>
  \<open>_project_spec.Project\<close> as far as this module reads it: the project directory (a path,
  kept as its list of components), the optional run name and the \<open>docker_env\<close> mapping.
\<close>

record project =
  dir :: path
  name :: "string option"
  docker_env :: "string \<rightharpoonup> string"

text \<open>
  \<open>validate_docker_env\<close> reads the mapping through \<open>dict.get\<close> only. The model returns
  the descriptor as the call leaves it next to the outcome.
\<close>

definition validate_docker_env :: "project \<Rightarrow> (error + unit) \<times> project" where
  "validate_docker_env project =
     (if \<not> truthy (docker_env project ''image'')
      then (Inl (ExecutionException
              (''Project with docker environment must specify the docker image ''
               @ ''to use via an 'image' field under the 'docker_env' field.'')), project)
      else (Inr (), project))"

section \<open>Image generation through the external tool: \<open>generate_docker_image\<close>\<close>

abbreviation newline :: char where
  "newline \<equiv> CHR 0x0A"

text \<open>
  \<open>re.findall\<close> for a pattern \<open>pre(.+)suf\<close> with literal \<open>pre\<close> and \<open>suf\<close>, as both patterns
  of the source are. The group \<open>.+\<close> is greedy and never crosses a line break:
  \<open>greedy_capture suf l\<close> is the longest non-empty start of the line \<open>l\<close> that is followed
  by \<open>suf\<close>. The scan tries every position from the left and goes on behind a match
  (\<open>skip\<close> counts the characters of the match still to pass).
\<close>

fun greedy_capture :: "string \<Rightarrow> string \<Rightarrow> string option" where
  "greedy_capture suf [] = None"
| "greedy_capture suf (c # cs) =
     (case greedy_capture suf cs of
        Some cap \<Rightarrow> Some (c # cap)
      | None \<Rightarrow> if prefix suf cs then Some [c] else None)"

definition match_here :: "string \<Rightarrow> string \<Rightarrow> string \<Rightarrow> string option" where
  "match_here pre suf s =
     (if prefix pre s
      then greedy_capture suf (takeWhile (\<lambda>c. c \<noteq> newline) (drop (length pre) s))
      else None)"

fun findall_from :: "string \<Rightarrow> string \<Rightarrow> nat \<Rightarrow> string \<Rightarrow> string list" where
  "findall_from pre suf skip [] = []"
| "findall_from pre suf (Suc k) (c # cs) = findall_from pre suf k cs"
| "findall_from pre suf 0 (c # cs) =
     (case match_here pre suf (c # cs) of
        Some cap \<Rightarrow>
          cap # findall_from pre suf (length pre + length cap + length suf - 1) cs
      | None \<Rightarrow> findall_from pre suf 0 cs)"

definition re_findall :: "string \<Rightarrow> string \<Rightarrow> string \<Rightarrow> string list" where
  "re_findall pre suf s = findall_from pre suf 0 s"

definition os_fspath :: "path \<Rightarrow> string" where
  "os_fspath p = concat (map (\<lambda>c. ''/'' @ c) p)"

text \<open>
  \<open>bytes.decode("utf-8")\<close> is strict: it raises \<open>UnicodeDecodeError\<close> unless the bytes are
  well-formed UTF-8, that is, a sequence of the byte patterns below (no overlong form,
  no surrogate, nothing above U+10FFFF, no stray or missing continuation byte).
\<close>

definition continuation :: "char \<Rightarrow> bool" where
  "continuation c \<longleftrightarrow> 0x80 \<le> (of_char c :: nat) \<and> (of_char c :: nat) \<le> 0xBF"

fun utf8_valid :: "string \<Rightarrow> bool" where
  "utf8_valid [] = True"
| "utf8_valid (b # bs) =
     (let n = (of_char b :: nat) in
      if n < 0x80 then utf8_valid bs
      else if 0xC2 \<le> n \<and> n \<le> 0xDF then
        (case bs of
           c1 # r \<Rightarrow> continuation c1 \<and> utf8_valid r
         | _ \<Rightarrow> False)
      else if 0xE0 \<le> n \<and> n \<le> 0xEF then
        (case bs of
           c1 # c2 # r \<Rightarrow>
             continuation c1 \<and> continuation c2
             \<and> (n = 0xE0 \<longrightarrow> 0xA0 \<le> (of_char c1 :: nat))
             \<and> (n = 0xED \<longrightarrow> (of_char c1 :: nat) \<le> 0x9F)
             \<and> utf8_valid r
         | _ \<Rightarrow> False)
      else if 0xF0 \<le> n \<and> n \<le> 0xF4 then
        (case bs of
           c1 # c2 # c3 # r \<Rightarrow>
             continuation c1 \<and> continuation c2 \<and> continuation c3
             \<and> (n = 0xF0 \<longrightarrow> 0x90 \<le> (of_char c1 :: nat))
             \<and> (n = 0xF4 \<longrightarrow> (of_char c1 :: nat) \<le> 0x8F)
             \<and> utf8_valid r
         | _ \<Rightarrow> False)
      else False)"

text \<open>
  The decoded text is kept as the bytes of its UTF-8 encoding. Both patterns of
  \<open>generate_docker_image\<close> are ASCII, and in well-formed UTF-8 a byte below \<open>0x80\<close> is
  always a whole character, so a pattern matches in the text where it matches in the
  bytes, a line break is the byte \<open>0x0A\<close>, and the captured name is a whole number of
  characters.
\<close>

definition decode_utf8 :: "string \<Rightarrow> error + string" where
  "decode_utf8 raw = (if utf8_valid raw then Inr raw else Inl UnicodeDecodeError)"

text \<open>
  \<open>subprocess.run(cmd, stdout=PIPE, stderr=PIPE)\<close> is the parameter \<open>run\<close>: either it
  raises (the executable is missing, say), or the process ran and the result carries the
  bytes it wrote to its error stream.
\<close>

definition repo2docker_cmd :: "project \<Rightarrow> string \<Rightarrow> string list" where
  "repo2docker_cmd project entry_cmd =
     (let path = os_fspath (dir project)
      in [''jupyter-repo2docker'', ''--no-run'', path,
          [CHR 0x22] @ entry_cmd @ [CHR 0x22]])"

definition generate_docker_image ::
  "project \<Rightarrow> string \<Rightarrow> (string list \<Rightarrow> error + string) \<Rightarrow> error + string" where
  "generate_docker_image project entry_cmd run =
     (let cmd = repo2docker_cmd project entry_cmd in
      case run cmd of
        Inl e \<Rightarrow> Inl e
      | Inr raw \<Rightarrow>
      (case decode_utf8 raw of
         Inl e \<Rightarrow> Inl e
       | Inr stderr \<Rightarrow>
           let image_id = re_findall ''Successfully tagged '' '':latest'' stderr;
               image_id = (if image_id = []
                           then re_findall ''Reusing existing image ('' '')'' stderr
                           else image_id)
           in if image_id = [] then Inl (PyException ''error running repo2docker'')
              else Inr (hd image_id)))"

text \<open>
  What it means for the output to contain a marker \<open>pre <name> suf\<close>: the name is not
  empty and lies on one line.
\<close>

definition contains_marker :: "string \<Rightarrow> string \<Rightarrow> string \<Rightarrow> bool" where
  "contains_marker pre suf s \<longleftrightarrow>
     (\<exists>a nm b. s = a @ pre @ nm @ suf @ b \<and> nm \<noteq> [] \<and> newline \<notin> set nm)"

text \<open>
  The first captured identifier, said without the scan: the marker that starts
  furthest to the left, and at that place the longest name the line allows.
\<close>

definition first_capture :: "string \<Rightarrow> string \<Rightarrow> string \<Rightarrow> string \<Rightarrow> bool" where
  "first_capture pre suf s cap \<longleftrightarrow>
     (\<exists>a b. s = a @ pre @ cap @ suf @ b \<and> cap \<noteq> [] \<and> newline \<notin> set cap
        \<and> (\<forall>a' nm b'. s = a' @ pre @ nm @ suf @ b' \<and> nm \<noteq> [] \<and> newline \<notin> set nm
              \<longrightarrow> length a \<le> length a'
                  \<and> (length a' = length a \<longrightarrow> length nm \<le> length cap)))"

section \<open>A file system for the Build-Context Packager\<close>

text \<open>
  A file system maps a path to what lies there: a directory, a regular file with its
  bytes, or an archive file, kept as the tree it unpacks to (a map from the paths inside
  the archive to their entries).
\<close>

datatype node = Dir | File string | Tarball "string list \<Rightarrow> node option"

type_synonym filesystem = "path \<Rightarrow> node option"

text \<open>
  What the operating system contributes to one call: the directory for temporary
  files, the names \<open>tempfile\<close> draws for \<open>mkdtemp\<close> and \<open>mkstemp\<close> (each tried in turn
  until one is free), and the input/output faults of the four steps that can meet one.
  A copy that faults has copied the entries \<open>copied\<close> selects; a removal that faults (an
  entry the process may not delete, such as the copy of a read-only directory) has
  removed the entries \<open>removed\<close> selects.
\<close>

record os_env =
  tempdir :: path
  dir_names :: "string list"
  file_names :: "string list"
  copy_fault :: "(path \<Rightarrow> bool) option"
  write_fault :: bool
  tar_fault :: bool
  rmtree_fault :: "(path \<Rightarrow> bool) option"

fun first_fresh :: "filesystem \<Rightarrow> path \<Rightarrow> string list \<Rightarrow> path option" where
  "first_fresh fs d [] = None"
| "first_fresh fs d (n # ns) =
     (if fs (d @ [n]) = None then Some (d @ [n]) else first_fresh fs d ns)"

definition mkdtemp :: "os_env \<Rightarrow> filesystem \<Rightarrow> (error + path) \<times> filesystem" where
  "mkdtemp os fs =
     (case first_fresh fs (tempdir os) (dir_names os) of
        None \<Rightarrow> (Inl FileExistsError, fs)
      | Some d \<Rightarrow> (Inr d, fs(d \<mapsto> Dir)))"

definition mkstemp :: "os_env \<Rightarrow> filesystem \<Rightarrow> (error + path) \<times> filesystem" where
  "mkstemp os fs =
     (case first_fresh fs (tempdir os) (file_names os) of
        None \<Rightarrow> (Inl FileExistsError, fs)
      | Some f \<Rightarrow> (Inr f, fs(f \<mapsto> File [])))"

text \<open>
  \<open>shutil.copytree(src, dst)\<close>: the source must be a directory and the destination must
  not exist; every path under the destination then holds what the same path under the
  source held. Copying a directory into itself never ends well in Python (the copy
  descends into its own output until a path is too long), which is an error here.
\<close>

definition copytree :: "os_env \<Rightarrow> path \<Rightarrow> path \<Rightarrow> filesystem \<Rightarrow> (error + unit) \<times> filesystem" where
  "copytree os src dst fs =
     (if fs src = None then (Inl FileNotFoundError, fs)
      else if fs src \<noteq> Some Dir then (Inl NotADirectoryError, fs)
      else if fs dst \<noteq> None then (Inl FileExistsError, fs)
      else if prefix src dst then (Inl ShutilError, fs(dst \<mapsto> Dir))
      else (case copy_fault os of
              Some copied \<Rightarrow>
                (Inl ShutilError,
                 (\<lambda>p. if prefix dst p \<and> (p = dst \<or> copied (drop (length dst) p))
                      then fs (src @ drop (length dst) p) else fs p))
            | None \<Rightarrow>
                (Inr (),
                 (\<lambda>p. if prefix dst p then fs (src @ drop (length dst) p) else fs p))))"

text \<open>\<open>open(p, "w")\<close> followed by \<open>handle.write(text)\<close>; a fault leaves the file truncated.\<close>

definition write_file :: "bool \<Rightarrow> path \<Rightarrow> string \<Rightarrow> filesystem \<Rightarrow> (error + unit) \<times> filesystem" where
  "write_file fault p text fs =
     (if p = [] \<or> fs (butlast p) = None then (Inl FileNotFoundError, fs)
      else if fs (butlast p) \<noteq> Some Dir then (Inl NotADirectoryError, fs)
      else if fs p = Some Dir then (Inl IsADirectoryError, fs)
      else if fault then (Inl OSError, fs(p \<mapsto> File []))
      else (Inr (), fs(p \<mapsto> File text)))"

text \<open>
  Modelled from the spec: \<open>wandb.util.make_tarfile\<close> is not among the sources. The
  specification has it archive the copied subdirectory into a single file at the given
  path, with a fixed top-level entry name so that all paths inside the archive share
  one root: the entry \<open>archive_name\<close> is the source directory and the entries below it
  are the entries below the source directory.
\<close>

definition make_tarfile ::
  "bool \<Rightarrow> path \<Rightarrow> path \<Rightarrow> string \<Rightarrow> filesystem \<Rightarrow> (error + unit) \<times> filesystem" where
  "make_tarfile fault output_filename source_dir archive_name fs =
     (if fault \<or> fs source_dir = None then (Inl OSError, fs)
      else (Inr (),
            fs(output_filename \<mapsto>
                 Tarball (\<lambda>p. case p of
                                [] \<Rightarrow> None
                              | r # rel \<Rightarrow> if r = archive_name then fs (source_dir @ rel)
                                           else None))))"

text \<open>
  \<open>shutil.rmtree(d)\<close>, called without \<open>ignore_errors\<close>: it raises at the first entry it
  cannot delete, and the directory \<open>d\<close> itself is then still there.
\<close>

definition rmtree ::
  "(path \<Rightarrow> bool) option \<Rightarrow> path \<Rightarrow> filesystem \<Rightarrow> (error + unit) \<times> filesystem" where
  "rmtree fault d fs =
     (if fs d = None then (Inl FileNotFoundError, fs)
      else if fs d \<noteq> Some Dir then (Inl NotADirectoryError, fs)
      else (case fault of
              Some removed \<Rightarrow>
                (Inl PermissionError,
                 (\<lambda>p. if prefix d p \<and> p \<noteq> d \<and> removed p then None else fs p))
            | None \<Rightarrow> (Inr (), (\<lambda>p. if prefix d p then None else fs p))))"

text \<open>\<open>os.remove(p)\<close>: removes a file, refuses a directory.\<close>

definition os_remove :: "path \<Rightarrow> filesystem \<Rightarrow> (error + unit) \<times> filesystem" where
  "os_remove p fs =
     (if fs p = None then (Inl FileNotFoundError, fs)
      else if fs p = Some Dir then (Inl IsADirectoryError, fs)
      else (Inr (), fs(p := None)))"

section \<open>Build-Context Packager: \<open>_create_docker_build_ctx\<close>\<close>

definition GENERATED_DOCKERFILE_NAME :: string where
  "GENERATED_DOCKERFILE_NAME = ''Dockerfile.wandb-autogenerated''"

definition PROJECT_TAR_ARCHIVE_NAME :: string where
  "PROJECT_TAR_ARCHIVE_NAME = ''wandb-project-docker-build-context''"

text \<open>
  A statement that raises ends the block it stands in: \<open>then_do\<close> runs the rest only
  after a step that returned, and hands the error and the file system on otherwise.
\<close>

definition then_do ::
  "(error + 'a) \<times> filesystem \<Rightarrow> ('a \<Rightarrow> filesystem \<Rightarrow> (error + 'b) \<times> filesystem)
     \<Rightarrow> (error + 'b) \<times> filesystem" where
  "then_do m f = (case m of (Inl e, fs) \<Rightarrow> (Inl e, fs) | (Inr v, fs) \<Rightarrow> f v fs)"

text \<open>The body of the \<open>try\<close> block, from the scratch directory \<open>directory\<close> on.\<close>

definition build_ctx_try ::
  "os_env \<Rightarrow> path \<Rightarrow> path \<Rightarrow> string \<Rightarrow> filesystem \<Rightarrow> (error + path) \<times> filesystem" where
  "build_ctx_try os directory work_dir dockerfile_contents fs =
     (let dst_path = directory @ [''wandb-project-contents''] in
      then_do (copytree os work_dir dst_path fs) (\<lambda>_ fs1.
      then_do (write_file (write_fault os) (dst_path @ [GENERATED_DOCKERFILE_NAME])
                 dockerfile_contents fs1) (\<lambda>_ fs2.
      then_do (mkstemp os fs2) (\<lambda>result_path fs3.
      then_do (make_tarfile (tar_fault os) result_path dst_path PROJECT_TAR_ARCHIVE_NAME fs3)
        (\<lambda>_ fs4. (Inr result_path, fs4))))))"

text \<open>
  \<open>mkdtemp\<close> stands before the \<open>try\<close>. The \<open>finally\<close> clause runs \<open>rmtree\<close> on whatever
  the body left, whether it returned or raised; an error of \<open>rmtree\<close> itself replaces the
  outcome of the body.
\<close>

definition create_docker_build_ctx ::
  "os_env \<Rightarrow> path \<Rightarrow> string \<Rightarrow> filesystem \<Rightarrow> (error + path) \<times> filesystem" where
  "create_docker_build_ctx os work_dir dockerfile_contents fs =
     then_do (mkdtemp os fs) (\<lambda>directory fs0.
       (case build_ctx_try os directory work_dir dockerfile_contents fs0 of
          (outcome, fs1) \<Rightarrow>
            then_do (rmtree (rmtree_fault os) directory fs1) (\<lambda>_ fs2. (outcome, fs2))))"

text \<open>The scratch directory a call allocates, when it allocates one.\<close>

definition scratch_directory :: "os_env \<Rightarrow> filesystem \<Rightarrow> path option" where
  "scratch_directory os fs = first_fresh fs (tempdir os) (dir_names os)"

text \<open>The entry at a path inside the archive file at \<open>p\<close>.\<close>

definition archive_entry :: "filesystem \<Rightarrow> path \<Rightarrow> path \<Rightarrow> node option" where
  "archive_entry fs p q = (case fs p of Some (Tarball t) \<Rightarrow> t q | _ \<Rightarrow> None)"

section \<open>Image Builder: \<open>build_docker_image\<close>\<close>

text \<open>The tracking client as this module reads it: \<open>api.settings("base_url")\<close> and \<open>api.api_key\<close>.\<close>

record api =
  settings_base_url :: string
  api_key :: string

text \<open>The keyword arguments of \<open>client.images.build\<close>.\<close>

record build_request =
  req_tag :: string
  req_forcerm :: bool
  req_dockerfile :: string
  req_fileobj :: node
  req_custom_context :: bool
  req_encoding :: string

text \<open>
  Everything a call can change: the file system and the calls the build engine has
  received.
\<close>

record world =
  files :: filesystem
  engine_calls :: "build_request list"

text \<open>
  What other modules and the outside contribute, as parameters: the predicates
  \<open>_is_wandb_local_uri\<close> and \<open>_is_wandb_dev_uri\<close> and the constant
  \<open>WANDB_DOCKER_WORKDIR_PATH\<close> of \<open>wandb/sdk/launch/utils.py\<close>, the answer of
  \<open>GitRepo(work_dir).last_commit\<close>, the build engine behind \<open>docker.from_env()\<close>, and the
  operating system.
\<close>

record launch_env =
  is_wandb_local_uri :: "string \<Rightarrow> bool"
  is_wandb_dev_uri :: "string \<Rightarrow> bool"
  WANDB_DOCKER_WORKDIR_PATH :: string
  last_commit :: "path \<Rightarrow> string option"
  images_build :: "build_request \<Rightarrow> error + string"
  host_os :: os_env

text \<open>
  Lines 76 to 82. The unpacking \<open>_, _, port = ... .split(":")\<close> raises \<open>ValueError\<close>
  unless the split has exactly three parts.
\<close>

definition resolve_base_url :: "launch_env \<Rightarrow> api \<Rightarrow> error + string" where
  "resolve_base_url env api =
     (if is_wandb_local_uri env (settings_base_url api)
      then (case split_on (CHR '':'') (settings_base_url api) of
              [_, _, port] \<Rightarrow> Inr (''http://host.docker.internal:'' @ port)
            | _ \<Rightarrow> Inl ValueError)
      else if is_wandb_dev_uri env (settings_base_url api)
      then Inr ''http://host.docker.internal:9002''
      else Inr (settings_base_url api))"

text \<open>Lines 89 to 113: the template and its \<open>format\<close> call, which substitutes verbatim.\<close>

definition dockerfile_text ::
  "string \<Rightarrow> string \<Rightarrow> string \<Rightarrow> string \<Rightarrow> string \<Rightarrow> string \<Rightarrow> string option \<Rightarrow> string" where
  "dockerfile_text imagename workdir base_url api_key' wandb_project wandb_entity project_name =
     (let name_env =
            (if truthy project_name
             then ''ENV WANDB_NAME='' @ the project_name @ [newline]
             else '''')
      in ''FROM '' @ imagename @ [newline]
         @ ''COPY '' @ PROJECT_TAR_ARCHIVE_NAME @ ''/ '' @ workdir @ [newline]
         @ ''WORKDIR '' @ workdir @ [newline]
         @ ''ENV WANDB_BASE_URL='' @ base_url @ [newline]
         @ ''ENV WANDB_API_KEY='' @ api_key' @ [newline]
         @ ''ENV WANDB_PROJECT='' @ wandb_project @ [newline]
         @ ''ENV WANDB_ENTITY='' @ wandb_entity @ [newline]
         @ name_env
         @ ''ENV WANDB_LAUNCH=True'' @ [newline]
         @ ''USER root'' @ [newline])"

definition build_docker_image ::
  "launch_env \<Rightarrow> project \<Rightarrow> string option \<Rightarrow> string \<Rightarrow> api \<Rightarrow> world
     \<Rightarrow> (error + string) \<times> world" where
  "build_docker_image env project docker_repository_uri base_image api w =
     (let image_uri =
            get_docker_image_uri docker_repository_uri (last_commit env (dir project))
      in
      case resolve_base_url env api of
        Inl e \<Rightarrow> (Inl e, w)
      | Inr base_url \<Rightarrow>
      (case docker_env project ''WANDB_PROJECT'' of
         None \<Rightarrow> (Inl (KeyError ''WANDB_PROJECT''), w)
       | Some wandb_project \<Rightarrow>
      (case docker_env project ''WANDB_ENTITY'' of
         None \<Rightarrow> (Inl (KeyError ''WANDB_ENTITY''), w)
       | Some wandb_entity \<Rightarrow>
         let dockerfile =
               dockerfile_text base_image (WANDB_DOCKER_WORKDIR_PATH env) base_url
                 (api_key api) wandb_project wandb_entity (name project)
         in
         (case create_docker_build_ctx (host_os env) (dir project) dockerfile (files w) of
            (Inl e, fs1) \<Rightarrow> (Inl e, w\<lparr>files := fs1\<rparr>)
          | (Inr build_ctx_path, fs1) \<Rightarrow>
            (case fs1 build_ctx_path of
               None \<Rightarrow> (Inl FileNotFoundError, w\<lparr>files := fs1\<rparr>)
             | Some Dir \<Rightarrow> (Inl IsADirectoryError, w\<lparr>files := fs1\<rparr>)
             | Some docker_build_ctx \<Rightarrow>
                 let request =
                       \<lparr>req_tag = image_uri, req_forcerm = True,
                        req_dockerfile =
                          PROJECT_TAR_ARCHIVE_NAME @ ''/'' @ GENERATED_DOCKERFILE_NAME,
                        req_fileobj = docker_build_ctx, req_custom_context = True,
                        req_encoding = ''gzip''\<rparr>;
                     w1 = w\<lparr>files := fs1, engine_calls := engine_calls w @ [request]\<rparr>
                 in
                 (case images_build env request of
                    Inl e \<Rightarrow> (Inl e, w1)
                  | Inr built_image \<Rightarrow>
                      (Inr built_image, w1\<lparr>files := snd (os_remove build_ctx_path fs1)\<rparr>)))))))"

text \<open>
  The recipe as the specification lists it, line by line; the run-name line is there
  when the descriptor's name is set, that is, present and not empty.
\<close>

definition recipe_lines ::
  "string \<Rightarrow> string \<Rightarrow> string \<Rightarrow> string \<Rightarrow> string \<Rightarrow> string \<Rightarrow> string option \<Rightarrow> string list" where
  "recipe_lines baseImage fixedWorkdir baseURL apiKey proj entity run_name =
     [''FROM '' @ baseImage,
      ''COPY '' @ ''wandb-project-docker-build-context'' @ ''/ '' @ fixedWorkdir,
      ''WORKDIR '' @ fixedWorkdir,
      ''ENV WANDB_BASE_URL='' @ baseURL,
      ''ENV WANDB_API_KEY='' @ apiKey,
      ''ENV WANDB_PROJECT='' @ proj,
      ''ENV WANDB_ENTITY='' @ entity]
     @ (case run_name of
          None \<Rightarrow> []
        | Some n \<Rightarrow> if n = [] then [] else [''ENV WANDB_NAME='' @ n])
     @ [''ENV WANDB_LAUNCH=True'', ''USER root'']"

definition unlines :: "string list \<Rightarrow> string" where
  "unlines ls = concat (map (\<lambda>l. l @ [newline]) ls)"

section \<open>A small project, used to run the definitions\<close>

definition example_fs :: filesystem where
  "example_fs =
     [[''tmp''] \<mapsto> Dir,
      [''proj''] \<mapsto> Dir,
      [''proj'', ''train.py''] \<mapsto> File ''print(1)'',
      [''proj'', ''Dockerfile.wandb-autogenerated''] \<mapsto> File ''FROM old'']"

definition example_os :: os_env where
  "example_os =
     \<lparr>tempdir = [''tmp''], dir_names = [''a'', ''b''], file_names = [''a'', ''b''],
      copy_fault = None, write_fault = False, tar_fault = False, rmtree_fault = None\<rparr>"

definition example_env :: launch_env where
  "example_env =
     \<lparr>is_wandb_local_uri = (\<lambda>u. prefix ''http://localhost'' u),
      is_wandb_dev_uri = (\<lambda>u. u = ''https://api.wandb.test''),
      WANDB_DOCKER_WORKDIR_PATH = ''/wandb/code'',
      last_commit = (\<lambda>_. Some ''abc1234567''),
      images_build = (\<lambda>_. Inr ''image-1''),
      host_os = example_os\<rparr>"

definition example_project :: project where
  "example_project =
     \<lparr>dir = [''proj''], name = Some ''run-7'',
      docker_env = [''image'' \<mapsto> ''python:3.9'', ''WANDB_PROJECT'' \<mapsto> ''mnist'',
                    ''WANDB_ENTITY'' \<mapsto> ''team'']\<rparr>"

definition example_world :: world where
  "example_world = \<lparr>files = example_fs, engine_calls = []\<rparr>"

section \<open>Properties of the Tag Deriver\<close>

lemma replace_char_map: "replace_char a b s = map (\<lambda>c. if c = a then b else c) s"
  by (induction s) simp_all

lemma spec_normalized_code:
  "spec_normalized r =
     (if truthy r then replace_char (CHR '' '') (CHR ''-'') (the r) else ''docker-project'')"
  by (cases r) (simp_all add: spec_normalized_def spec_substituted_def replace_char_map)

lemma spec_normalized_no_space: "CHR '' '' \<notin> set (spec_normalized r)"
  by (auto simp: spec_normalized_def)

text \<open>
  C2. For every repository URI (absent, empty or not) and every answer of the
  version-control query, the tag starts with the normalised repository URI: the fixed
  name \<open>docker-project\<close> when the URI is empty, the URI itself otherwise, with every
  space replaced by a hyphen; the prefix has the length of the substituted URI and holds
  no space. For \<open>my repo\<close> the prefix is \<open>my-repo\<close>.
\<close>

theorem tag_prefix_normalized:
  "take (length (spec_substituted r)) (get_docker_image_uri r g) = spec_normalized r
   \<and> spec_substituted None = ''docker-project''
   \<and> spec_substituted (Some '''') = ''docker-project''
   \<and> CHR '' '' \<notin> set (spec_normalized r)
   \<and> spec_normalized (Some ''my repo'') = ''my-repo''"
proof -
  have len: "length (spec_normalized r) = length (spec_substituted r)"
    by (simp add: spec_normalized_def)
  have "get_docker_image_uri r g =
          spec_normalized r @ (if truthy g then '':'' @ take 7 (the g) else '''')"
    by (simp add: get_docker_image_uri_def spec_normalized_code Let_def)
  then have "take (length (spec_substituted r)) (get_docker_image_uri r g) = spec_normalized r"
    using len by simp
  moreover have "spec_normalized (Some ''my repo'') = ''my-repo''"
    by (simp add: spec_normalized_def spec_substituted_def)
  ultimately show ?thesis
    by (simp add: spec_normalized_no_space spec_substituted_def)
qed

theorem tag_prefix_normalized_witness:
  "take 7 (get_docker_image_uri (Some ''my repo'') (Some ''abc1234567'')) = ''my-repo''
   \<and> take 14 (get_docker_image_uri (Some '''') None) = ''docker-project''"
  using tag_prefix_normalized [of "Some ''my repo''" "Some ''abc1234567''"]
        tag_prefix_normalized [of "Some ''''" None]
  by (simp add: spec_normalized_def spec_substituted_def get_docker_image_uri_def)

text \<open>
  C3. Without a commit identifier the tag is the normalised repository URI and nothing
  more; with a commit identifier it is the normalised URI, a colon, and the first seven
  characters of the identifier (all of it when it is shorter).
\<close>

theorem tag_version_suffix:
  "get_docker_image_uri r None = spec_normalized r
   \<and> (c \<noteq> [] \<longrightarrow>
        get_docker_image_uri r (Some c) = spec_normalized r @ '':'' @ take 7 c
        \<and> (length c \<le> 7 \<longrightarrow> get_docker_image_uri r (Some c) = spec_normalized r @ '':'' @ c))"
  by (simp add: get_docker_image_uri_def spec_normalized_code Let_def)

theorem tag_version_suffix_witness:
  "get_docker_image_uri (Some ''my repo'') None = ''my-repo''
   \<and> get_docker_image_uri (Some ''my repo'') (Some ''abc1234567'') = ''my-repo:abc1234''
   \<and> get_docker_image_uri None (Some ''abc'') = ''docker-project:abc''"
  using tag_version_suffix [of "Some ''my repo''" "''abc1234567''"]
        tag_version_suffix [of None "''abc''"]
  by (simp add: spec_normalized_def spec_substituted_def)

section \<open>The pattern matcher\<close>

lemma greedy_sound:
  "greedy_capture suf l = Some cap \<Longrightarrow> cap \<noteq> [] \<and> prefix (cap @ suf) l"
  by (induction l arbitrary: cap) (auto split: option.splits if_splits)

lemma greedy_complete:
  "cap \<noteq> [] \<Longrightarrow> prefix (cap @ suf) l \<Longrightarrow> greedy_capture suf l \<noteq> None"
proof (induction l arbitrary: cap)
  case Nil then show ?case by simp
next
  case (Cons c cs)
  then obtain cap' where cap: "cap = c # cap'" and p: "prefix (cap' @ suf) cs"
    by (cases cap) auto
  show ?case
  proof (cases "cap' = []")
    case True with p show ?thesis by (simp split: option.splits)
  next
    case False
    with Cons.IH p have "greedy_capture suf cs \<noteq> None" by blast
    then show ?thesis by (auto split: option.splits)
  qed
qed

lemma greedy_longest:
  "greedy_capture suf l = Some cap \<Longrightarrow> nm \<noteq> [] \<Longrightarrow> prefix (nm @ suf) l
     \<Longrightarrow> length nm \<le> length cap"
proof (induction l arbitrary: cap nm)
  case Nil then show ?case by simp
next
  case (Cons c cs)
  from Cons.prems obtain nm' where nm: "nm = c # nm'" and p: "prefix (nm' @ suf) cs"
    by (cases nm) auto
  show ?case
  proof (cases "greedy_capture suf cs")
    case None
    have "nm' = []"
    proof (rule ccontr)
      assume "nm' \<noteq> []"
      from greedy_complete [OF this p] have "greedy_capture suf cs \<noteq> None" .
      with None show False by simp
    qed
    moreover from Cons.prems(1) None have "cap \<noteq> []" by (auto split: if_splits)
    ultimately show ?thesis using nm by (cases cap) simp_all
  next
    case (Some cap')
    with Cons.prems(1) have cap: "cap = c # cap'" by simp
    show ?thesis
    proof (cases "nm' = []")
      case True with nm cap show ?thesis by simp
    next
      case False
      with Cons.IH [OF Some _ p] have "length nm' \<le> length cap'" by blast
      with nm cap show ?thesis by simp
    qed
  qed
qed

lemma line_of_append:
  "newline \<notin> set xs \<Longrightarrow>
     takeWhile (\<lambda>c. c \<noteq> newline) (xs @ ys) = xs @ takeWhile (\<lambda>c. c \<noteq> newline) ys"
  by (rule takeWhile_append2) auto

lemma match_here_Some_D:
  assumes "match_here pre suf s = Some cap"
  shows "cap \<noteq> [] \<and> newline \<notin> set cap \<and> (\<exists>b. s = pre @ cap @ suf @ b)"
proof -
  let ?r = "drop (length pre) s"
  let ?l = "takeWhile (\<lambda>c. c \<noteq> newline) ?r"
  from assms have pre: "prefix pre s" and g: "greedy_capture suf ?l = Some cap"
    by (auto simp: match_here_def split: if_splits)
  from greedy_sound [OF g] obtain rest where ne: "cap \<noteq> []" and l: "?l = cap @ suf @ rest"
    by (auto simp: prefix_def)
  have "set ?l \<subseteq> {c. c \<noteq> newline}" using set_takeWhileD by fastforce
  with l have nl: "newline \<notin> set cap" by auto
  have "?r = ?l @ dropWhile (\<lambda>c. c \<noteq> newline) ?r" by simp
  with l have r: "?r = cap @ suf @ (rest @ dropWhile (\<lambda>c. c \<noteq> newline) ?r)" by simp
  from pre have "s = pre @ ?r" by (auto simp: prefix_def)
  with r have "s = pre @ cap @ suf @ (rest @ dropWhile (\<lambda>c. c \<noteq> newline) ?r)" by metis
  with ne nl show ?thesis by blast
qed

lemma match_here_line:
  assumes "newline \<notin> set suf" "newline \<notin> set nm"
  shows "match_here pre suf (pre @ nm @ suf @ b) =
           greedy_capture suf (nm @ suf @ takeWhile (\<lambda>c. c \<noteq> newline) b)"
proof -
  from assms have "newline \<notin> set (nm @ suf)" by simp
  then have "takeWhile (\<lambda>c. c \<noteq> newline) ((nm @ suf) @ b) = (nm @ suf) @ takeWhile (\<lambda>c. c \<noteq> newline) b"
    by (rule line_of_append)
  then show ?thesis by (simp add: match_here_def)
qed

lemma match_here_complete:
  assumes "newline \<notin> set suf" "newline \<notin> set nm" "nm \<noteq> []"
  shows "\<exists>cap. match_here pre suf (pre @ nm @ suf @ b) = Some cap \<and> length nm \<le> length cap"
proof -
  let ?l = "nm @ suf @ takeWhile (\<lambda>c. c \<noteq> newline) b"
  have p: "prefix (nm @ suf) ?l" by simp
  with assms(3) have "greedy_capture suf ?l \<noteq> None" by (rule greedy_complete)
  then obtain cap where g: "greedy_capture suf ?l = Some cap" by blast
  from greedy_longest [OF g assms(3) p] have "length nm \<le> length cap" .
  with g match_here_line [OF assms(1,2)] show ?thesis by simp
qed

lemma findall_first:
  "findall_from pre suf 0 s = cap # rest \<Longrightarrow>
     \<exists>i. i \<le> length s \<and> match_here pre suf (drop i s) = Some cap
        \<and> (\<forall>j<i. match_here pre suf (drop j s) = None)"
proof (induction s)
  case Nil then show ?case by simp
next
  case (Cons c cs)
  show ?case
  proof (cases "match_here pre suf (c # cs)")
    case (Some cap')
    with Cons.prems have "cap' = cap" by simp
    with Some have "0 \<le> length (c # cs) \<and> match_here pre suf (drop 0 (c # cs)) = Some cap
        \<and> (\<forall>j<0. match_here pre suf (drop j (c # cs)) = None)" by simp
    then show ?thesis by (rule exI)
  next
    case None
    with Cons.prems have "findall_from pre suf 0 cs = cap # rest" by simp
    from Cons.IH [OF this] obtain i where i: "i \<le> length cs"
        "match_here pre suf (drop i cs) = Some cap"
        "\<forall>j<i. match_here pre suf (drop j cs) = None" by blast
    have "\<forall>j<Suc i. match_here pre suf (drop j (c # cs)) = None"
    proof (intro allI impI)
      fix j assume "j < Suc i"
      then show "match_here pre suf (drop j (c # cs)) = None"
        using None i(3) by (cases j) simp_all
    qed
    with i(1,2) have "Suc i \<le> length (c # cs) \<and> match_here pre suf (drop (Suc i) (c # cs)) = Some cap
        \<and> (\<forall>j<Suc i. match_here pre suf (drop j (c # cs)) = None)" by simp
    then show ?thesis by (rule exI)
  qed
qed

lemma findall_nonempty:
  "match_here pre suf (drop i s) \<noteq> None \<Longrightarrow> findall_from pre suf 0 s \<noteq> []"
proof (induction s arbitrary: i)
  case Nil then show ?case by (simp add: match_here_def split: if_splits)
next
  case (Cons c cs)
  show ?case
  proof (cases "match_here pre suf (c # cs)")
    case (Some cap) then show ?thesis by simp
  next
    case None
    with Cons.prems obtain k where "i = Suc k" by (cases i) auto
    with Cons.prems have "match_here pre suf (drop k cs) \<noteq> None" by simp
    with Cons.IH None show ?thesis by simp
  qed
qed

lemma re_findall_marker:
  assumes "newline \<notin> set suf" "contains_marker pre suf s"
  shows "re_findall pre suf s \<noteq> []"
proof -
  from assms(2) obtain a nm b where s: "s = a @ pre @ nm @ suf @ b" and nm: "nm \<noteq> []" "newline \<notin> set nm"
    by (auto simp: contains_marker_def)
  from match_here_complete [OF assms(1) nm(2,1)]
  have "match_here pre suf (pre @ nm @ suf @ b) \<noteq> None" by fastforce
  with s have "match_here pre suf (drop (length a) s) \<noteq> None" by simp
  then show ?thesis unfolding re_findall_def by (rule findall_nonempty)
qed

lemma re_findall_first:
  assumes suf: "newline \<notin> set suf" and f: "re_findall pre suf s = cap # rest"
  shows "first_capture pre suf s cap"
proof -
  from f findall_first obtain i where i: "i \<le> length s" "match_here pre suf (drop i s) = Some cap"
      "\<forall>j<i. match_here pre suf (drop j s) = None"
    unfolding re_findall_def by blast
  from match_here_Some_D [OF i(2)] obtain b where cap: "cap \<noteq> []" "newline \<notin> set cap"
      and d: "drop i s = pre @ cap @ suf @ b" by blast
  have "s = take i s @ pre @ cap @ suf @ b" using d by (metis append_take_drop_id)
  moreover have "length (take i s) = i" using i(1) by simp
  ultimately obtain a where s: "s = a @ pre @ cap @ suf @ b" and len: "length a = i" by blast
  have later: "\<forall>a' nm b'. s = a' @ pre @ nm @ suf @ b' \<and> nm \<noteq> [] \<and> newline \<notin> set nm
              \<longrightarrow> i \<le> length a' \<and> (length a' = i \<longrightarrow> length nm \<le> length cap)"
  proof (intro allI impI, elim conjE)
    fix a' nm b'
    assume s': "s = a' @ pre @ nm @ suf @ b'" and nm: "nm \<noteq> []" "newline \<notin> set nm"
    from match_here_complete [OF suf nm(2,1)] obtain cap'
      where m: "match_here pre suf (pre @ nm @ suf @ b') = Some cap'" and le: "length nm \<le> length cap'"
      by blast
    from s' have d': "drop (length a') s = pre @ nm @ suf @ b'" by simp
    have 1: "i \<le> length a'"
    proof (rule ccontr)
      assume "\<not> i \<le> length a'"
      then have "length a' < i" by simp
      with i(3) have "match_here pre suf (drop (length a') s) = None" by blast
      with d' m show False by simp
    qed
    have 2: "length a' = i \<longrightarrow> length nm \<le> length cap"
    proof
      assume "length a' = i"
      with d' m i(2) have "cap' = cap" by simp
      with le show "length nm \<le> length cap" by simp
    qed
    from 1 2 show "i \<le> length a' \<and> (length a' = i \<longrightarrow> length nm \<le> length cap)" ..
  qed
  from s cap len later show ?thesis unfolding first_capture_def by blast
qed

lemma first_capture_marker: "first_capture pre suf s cap \<Longrightarrow> contains_marker pre suf s"
  unfolding first_capture_def contains_marker_def by blast

lemma re_findall_empty_iff:
  assumes "newline \<notin> set suf"
  shows "re_findall pre suf s = [] \<longleftrightarrow> \<not> contains_marker pre suf s"
proof
  assume "re_findall pre suf s = []"
  with re_findall_marker [OF assms] show "\<not> contains_marker pre suf s" by blast
next
  assume n: "\<not> contains_marker pre suf s"
  show "re_findall pre suf s = []"
  proof (cases "re_findall pre suf s")
    case Nil then show ?thesis .
  next
    case (Cons cap rest)
    from re_findall_first [OF assms Cons] first_capture_marker n show ?thesis by blast
  qed
qed

section \<open>Properties of \<open>generate_docker_image\<close>\<close>

text \<open>
  C9, as amended. When the tool ran and the bytes it wrote to its error stream are
  well-formed UTF-8: the call fails, with the exception of the source
  (\<open>Exception("error running repo2docker")\<close>, the specification's build error), exactly
  when the output holds neither a success marker \<open>Successfully tagged <name>:latest\<close>
  nor a reuse marker \<open>Reusing existing image (<name>)\<close>. With a success marker it
  returns the first identifier the success pattern captures, and with a reuse marker
  only, the first identifier the reuse pattern captures. When the bytes are not
  well-formed UTF-8 the call fails with \<open>UnicodeDecodeError\<close>, whatever markers they
  hold.
\<close>

theorem generate_docker_image_markers:
  "(run (repo2docker_cmd project entry_cmd) = Inr raw \<and> \<not> utf8_valid raw
      \<longrightarrow> generate_docker_image project entry_cmd run = Inl UnicodeDecodeError)
   \<and> (run (repo2docker_cmd project entry_cmd) = Inr raw \<and> utf8_valid raw
      \<longrightarrow> (generate_docker_image project entry_cmd run
                = Inl (PyException ''error running repo2docker'')
             \<longleftrightarrow> \<not> contains_marker ''Successfully tagged '' '':latest'' raw
                 \<and> \<not> contains_marker ''Reusing existing image ('' '')'' raw)
          \<and> (contains_marker ''Successfully tagged '' '':latest'' raw
               \<longrightarrow> (\<exists>cap. generate_docker_image project entry_cmd run = Inr cap
                     \<and> first_capture ''Successfully tagged '' '':latest'' raw cap))
          \<and> (\<not> contains_marker ''Successfully tagged '' '':latest'' raw
               \<and> contains_marker ''Reusing existing image ('' '')'' raw
               \<longrightarrow> (\<exists>cap. generate_docker_image project entry_cmd run = Inr cap
                     \<and> first_capture ''Reusing existing image ('' '')'' raw cap)))"
proof (intro conjI impI)
  assume "run (repo2docker_cmd project entry_cmd) = Inr raw \<and> \<not> utf8_valid raw"
  then show "generate_docker_image project entry_cmd run = Inl UnicodeDecodeError"
    by (simp add: generate_docker_image_def decode_utf8_def Let_def)
next
  let ?tagged = "re_findall ''Successfully tagged '' '':latest'' raw"
  let ?reused = "re_findall ''Reusing existing image ('' '')'' raw"
  have s1: "newline \<notin> set '':latest''" and s2: "newline \<notin> set '')''" by simp_all
  have e1: "?tagged = [] \<longleftrightarrow> \<not> contains_marker ''Successfully tagged '' '':latest'' raw"
    by (rule re_findall_empty_iff [OF s1])
  have e2: "?reused = [] \<longleftrightarrow> \<not> contains_marker ''Reusing existing image ('' '')'' raw"
    by (rule re_findall_empty_iff [OF s2])
  have f1: "first_capture ''Successfully tagged '' '':latest'' raw (hd ?tagged)"
    if "?tagged \<noteq> []"
  proof -
    from that obtain cap rest where "?tagged = cap # rest" by (cases ?tagged) auto
    with re_findall_first [OF s1 this] show ?thesis by simp
  qed
  have f2: "first_capture ''Reusing existing image ('' '')'' raw (hd ?reused)"
    if "?reused \<noteq> []"
  proof -
    from that obtain cap rest where "?reused = cap # rest" by (cases ?reused) auto
    with re_findall_first [OF s2 this] show ?thesis by simp
  qed
  have gen: "generate_docker_image project entry_cmd run =
               (if ?tagged \<noteq> [] then Inr (hd ?tagged)
                else if ?reused \<noteq> [] then Inr (hd ?reused)
                else Inl (PyException ''error running repo2docker''))"
    if "run (repo2docker_cmd project entry_cmd) = Inr raw \<and> utf8_valid raw"
    using that by (simp add: generate_docker_image_def decode_utf8_def Let_def)
  {
    assume ok: "run (repo2docker_cmd project entry_cmd) = Inr raw \<and> utf8_valid raw"
    show "generate_docker_image project entry_cmd run
            = Inl (PyException ''error running repo2docker'')
          \<longleftrightarrow> \<not> contains_marker ''Successfully tagged '' '':latest'' raw
              \<and> \<not> contains_marker ''Reusing existing image ('' '')'' raw"
      unfolding gen [OF ok] e1 [symmetric] e2 [symmetric] by simp
  next
    assume ok: "run (repo2docker_cmd project entry_cmd) = Inr raw \<and> utf8_valid raw"
      and "contains_marker ''Successfully tagged '' '':latest'' raw"
    with e1 have ne: "?tagged \<noteq> []" by simp
    with gen [OF ok] have "generate_docker_image project entry_cmd run = Inr (hd ?tagged)"
      by simp
    with f1 [OF ne] show "\<exists>cap. generate_docker_image project entry_cmd run = Inr cap
              \<and> first_capture ''Successfully tagged '' '':latest'' raw cap" by blast
  next
    assume ok: "run (repo2docker_cmd project entry_cmd) = Inr raw \<and> utf8_valid raw"
      and "\<not> contains_marker ''Successfully tagged '' '':latest'' raw
        \<and> contains_marker ''Reusing existing image ('' '')'' raw"
    with e1 e2 have em: "?tagged = []" and ne: "?reused \<noteq> []" by simp_all
    with gen [OF ok] have "generate_docker_image project entry_cmd run = Inr (hd ?reused)"
      by simp
    with f2 [OF ne] show "\<exists>cap. generate_docker_image project entry_cmd run = Inr cap
              \<and> first_capture ''Reusing existing image ('' '')'' raw cap" by blast
  }
qed

theorem generate_docker_image_markers_witness:
  "generate_docker_image example_project ''python train.py''
     (\<lambda>_. Inr (''Step 5/5'' @ [newline] @ ''Successfully tagged r2d-proj:latest'' @ [newline]))
     = Inr ''r2d-proj''
   \<and> first_capture ''Successfully tagged '' '':latest''
       (''Step 5/5'' @ [newline] @ ''Successfully tagged r2d-proj:latest'' @ [newline]) ''r2d-proj''
   \<and> generate_docker_image example_project ''python train.py''
       (\<lambda>_. Inr ''Reusing existing image (r2d-old), not building.'') = Inr ''r2d-old''
   \<and> generate_docker_image example_project ''python train.py'' (\<lambda>_. Inr ''docker: not found'')
       = Inl (PyException ''error running repo2docker'')
   \<and> \<not> contains_marker ''Successfully tagged '' '':latest'' ''docker: not found''
   \<and> generate_docker_image example_project ''python train.py''
       (\<lambda>_. Inr ([CHR 0xC3, CHR 0x28] @ ''Successfully tagged r2d-proj:latest''))
       = Inl UnicodeDecodeError"
proof -
  let ?o1 = "''Step 5/5'' @ [newline] @ ''Successfully tagged r2d-proj:latest'' @ [newline]"
  have v1: "utf8_valid ?o1" by simp
  have v3: "utf8_valid ''docker: not found''" by simp
  have v4: "\<not> utf8_valid ([CHR 0xC3, CHR 0x28] @ ''Successfully tagged r2d-proj:latest'')"
    by (simp add: continuation_def)
  have m1: "contains_marker ''Successfully tagged '' '':latest'' ?o1"
    unfolding contains_marker_def
    by (rule exI [of _ "''Step 5/5'' @ [newline]"], rule exI [of _ "''r2d-proj''"],
        rule exI [of _ "[newline]"]) simp
  have g1: "generate_docker_image example_project ''python train.py'' (\<lambda>_. Inr ?o1)
              = Inr ''r2d-proj''"
    using v1
    by (simp add: generate_docker_image_def decode_utf8_def re_findall_def match_here_def Let_def
             del: utf8_valid.simps)
  have v2: "utf8_valid ''Reusing existing image (r2d-old), not building.''" by simp
  have g2: "generate_docker_image example_project ''python train.py''
       (\<lambda>_. Inr ''Reusing existing image (r2d-old), not building.'') = Inr ''r2d-old''"
    using v2
    by (simp add: generate_docker_image_def decode_utf8_def re_findall_def match_here_def Let_def
             del: utf8_valid.simps)
  have g3: "generate_docker_image example_project ''python train.py''
       (\<lambda>_. Inr ''docker: not found'') = Inl (PyException ''error running repo2docker'')"
    using v3
    by (simp add: generate_docker_image_def decode_utf8_def re_findall_def match_here_def Let_def
             del: utf8_valid.simps)
  note inst1 = generate_docker_image_markers
                [of "\<lambda>_. Inr ?o1" example_project "''python train.py''" ?o1]
  from inst1 v1 m1 g1
  have c1: "first_capture ''Successfully tagged '' '':latest'' ?o1 ''r2d-proj''" by auto
  from generate_docker_image_markers
         [of "\<lambda>_. Inr ''docker: not found''" example_project "''python train.py''"
             "''docker: not found''"] v3 g3
  have c3: "\<not> contains_marker ''Successfully tagged '' '':latest'' ''docker: not found''" by simp
  from generate_docker_image_markers
         [of "\<lambda>_. Inr ([CHR 0xC3, CHR 0x28] @ ''Successfully tagged r2d-proj:latest'')"
             example_project "''python train.py''"
             "[CHR 0xC3, CHR 0x28] @ ''Successfully tagged r2d-proj:latest''"] v4
  have g4: "generate_docker_image example_project ''python train.py''
       (\<lambda>_. Inr ([CHR 0xC3, CHR 0x28] @ ''Successfully tagged r2d-proj:latest''))
       = Inl UnicodeDecodeError" by simp
  from g1 c1 g2 g3 c3 g4 show ?thesis by blast
qed

theorem generate_docker_image_markers_counterexample:
  "contains_marker ''Successfully tagged '' '':latest''
     ([CHR 0xFF, CHR 0xFE] @ ''Successfully tagged r2d-proj:latest'')
   \<and> generate_docker_image example_project ''python train.py''
       (\<lambda>_. Inr ([CHR 0xFF, CHR 0xFE] @ ''Successfully tagged r2d-proj:latest''))
       = Inl UnicodeDecodeError"
proof -
  have "contains_marker ''Successfully tagged '' '':latest''
     ([CHR 0xFF, CHR 0xFE] @ ''Successfully tagged r2d-proj:latest'')"
    unfolding contains_marker_def
    by (rule exI [of _ "[CHR 0xFF, CHR 0xFE]"], rule exI [of _ "''r2d-proj''"],
        rule exI [of _ "[]"]) simp
  moreover have "\<not> utf8_valid ([CHR 0xFF, CHR 0xFE] @ ''Successfully tagged r2d-proj:latest'')"
    by simp
  then have "generate_docker_image example_project ''python train.py''
       (\<lambda>_. Inr ([CHR 0xFF, CHR 0xFE] @ ''Successfully tagged r2d-proj:latest''))
       = Inl UnicodeDecodeError"
    by (simp add: generate_docker_image_def decode_utf8_def Let_def del: utf8_valid.simps)
  ultimately show ?thesis by blast
qed

section \<open>The steps of the packager\<close>

lemma then_do_cases:
  assumes "then_do m f = (r, fs')"
  obtains (raised) e where "m = (Inl e, fs')" "r = Inl e"
        | (returned) v fs1 where "m = (Inr v, fs1)" "f v fs1 = (r, fs')"
  using assms by (auto simp: then_do_def split: prod.splits sum.splits)

lemma first_fresh_Some:
  "first_fresh fs d ns = Some p \<Longrightarrow> fs p = None \<and> (\<exists>n. p = d @ [n])"
  by (induction ns) (auto split: if_splits)

lemma rmtree_removes:
  "rmtree flt d fs = (Inr u, fs') \<Longrightarrow> prefix d p \<Longrightarrow> fs' p = None"
  by (auto simp: rmtree_def split: if_splits option.splits)

lemma rmtree_other:
  "rmtree flt d fs = (r, fs') \<Longrightarrow> \<not> prefix d p \<Longrightarrow> fs' p = fs p"
  by (auto simp: rmtree_def split: if_splits option.splits)

lemma rmtree_returns:
  "fs d = Some Dir \<Longrightarrow> \<exists>fs'. rmtree None d fs = (Inr (), fs')"
  by (simp add: rmtree_def)

lemma rmtree_faults:
  "fs d = Some Dir \<Longrightarrow>
     \<exists>fs'. rmtree (Some removed) d fs = (Inl PermissionError, fs') \<and> fs' d = Some Dir"
  by (simp add: rmtree_def)

lemma copytree_other:
  "copytree os src dst fs = (r, fs') \<Longrightarrow> \<not> prefix dst p \<Longrightarrow> fs' p = fs p"
  by (auto simp: copytree_def split: if_splits option.splits)

lemma write_file_other:
  "write_file flt q txt fs = (r, fs') \<Longrightarrow> p \<noteq> q \<Longrightarrow> fs' p = fs p"
  by (auto simp: write_file_def split: if_splits)

lemma mkstemp_other:
  assumes "mkstemp os fs = (r, fs')" "fs p \<noteq> None"
  shows "fs' p = fs p"
proof (cases "first_fresh fs (tempdir os) (file_names os)")
  case None
  with assms(1) show ?thesis by (simp add: mkstemp_def)
next
  case (Some f)
  from first_fresh_Some [OF Some] assms(2) have "f \<noteq> p" by auto
  with assms(1) Some show ?thesis by (auto simp: mkstemp_def)
qed

lemma mkstemp_Inr:
  "mkstemp os fs = (Inr f, fs') \<Longrightarrow>
     fs f = None \<and> fs' = fs(f \<mapsto> File []) \<and> (\<exists>n. f = tempdir os @ [n])"
  by (auto simp: mkstemp_def split: option.splits dest: first_fresh_Some)

lemma make_tarfile_other:
  "make_tarfile flt out src arc fs = (r, fs') \<Longrightarrow> p \<noteq> out \<Longrightarrow> fs' p = fs p"
  by (auto simp: make_tarfile_def split: if_splits)

lemma build_ctx_try_keeps_directory:
  assumes run: "build_ctx_try os directory work_dir contents fs = (r, fs')"
      and d: "fs directory = Some Dir"
  shows "fs' directory = Some Dir"
proof -
  let ?dst = "directory @ [''wandb-project-contents'']"
  have nd: "\<not> prefix ?dst directory" by (simp add: prefix_def)
  from run have run': "then_do (copytree os work_dir ?dst fs) (\<lambda>_ fs1.
      then_do (write_file (write_fault os) (?dst @ [GENERATED_DOCKERFILE_NAME]) contents fs1) (\<lambda>_ fs2.
      then_do (mkstemp os fs2) (\<lambda>result_path fs3.
      then_do (make_tarfile (tar_fault os) result_path ?dst PROJECT_TAR_ARCHIVE_NAME fs3)
        (\<lambda>_ fs4. (Inr result_path, fs4))))) = (r, fs')"
    by (simp add: build_ctx_try_def Let_def)
  from run' show ?thesis
  proof (cases rule: then_do_cases)
    case (raised e)
    from copytree_other [OF raised(1) nd] d show ?thesis by simp
  next
    case (returned v fs1)
    from copytree_other [OF returned(1) nd] d have d1: "fs1 directory = Some Dir" by simp
    from returned(2) show ?thesis
    proof (cases rule: then_do_cases)
      case (raised e)
      from write_file_other [OF raised(1), of directory] d1 show ?thesis by simp
    next
      case (returned v2 fs2)
      from write_file_other [OF returned(1), of directory] d1
      have d2: "fs2 directory = Some Dir" by simp
      from returned(2) show ?thesis
      proof (cases rule: then_do_cases)
        case (raised e)
        from mkstemp_other [OF raised(1), of directory] d2 show ?thesis by simp
      next
        case (returned f fs3)
        from mkstemp_other [OF returned(1), of directory] d2
        have d3: "fs3 directory = Some Dir" by simp
        from mkstemp_Inr [OF returned(1)] d2 have ne: "directory \<noteq> f" by auto
        from returned(2) show ?thesis
        proof (cases rule: then_do_cases)
          case (raised e)
          from make_tarfile_other [OF raised(1) ne] d3 show ?thesis by simp
        next
          case (returned v4 fs4)
          from make_tarfile_other [OF returned(1) ne] d3 returned(2) show ?thesis by simp
        qed
      qed
    qed
  qed
qed

lemma create_cases:
  assumes "scratch_directory os fs = Some d" and "rmtree_fault os = None"
  obtains r fs1 fs2 where
    "build_ctx_try os d work_dir contents (fs(d \<mapsto> Dir)) = (r, fs1)"
    "rmtree None d fs1 = (Inr (), fs2)"
    "create_docker_build_ctx os work_dir contents fs = (r, fs2)"
proof -
  obtain r fs1 where t: "build_ctx_try os d work_dir contents (fs(d \<mapsto> Dir)) = (r, fs1)"
    by (cases "build_ctx_try os d work_dir contents (fs(d \<mapsto> Dir))") blast
  have "fs1 d = Some Dir" by (rule build_ctx_try_keeps_directory [OF t]) simp
  from rmtree_returns [of fs1 d, OF this] obtain fs2 where
    rm: "rmtree None d fs1 = (Inr (), fs2)" by blast
  have "create_docker_build_ctx os work_dir contents fs = (r, fs2)"
    using assms t rm
    by (simp add: create_docker_build_ctx_def mkdtemp_def scratch_directory_def then_do_def)
  with t rm show ?thesis by (rule that)
qed

lemma create_rmtree_fault:
  assumes "scratch_directory os fs = Some d" and "rmtree_fault os = Some removed"
  shows "fst (create_docker_build_ctx os work_dir contents fs) = Inl PermissionError
       \<and> snd (create_docker_build_ctx os work_dir contents fs) d = Some Dir"
proof -
  obtain r fs1 where t: "build_ctx_try os d work_dir contents (fs(d \<mapsto> Dir)) = (r, fs1)"
    by (cases "build_ctx_try os d work_dir contents (fs(d \<mapsto> Dir))") blast
  have "fs1 d = Some Dir" by (rule build_ctx_try_keeps_directory [OF t]) simp
  from rmtree_faults [of fs1 d removed, OF this] obtain fs2 where
    rm: "rmtree (Some removed) d fs1 = (Inl PermissionError, fs2)" and d: "fs2 d = Some Dir"
    by blast
  have "create_docker_build_ctx os work_dir contents fs = (Inl PermissionError, fs2)"
    using assms t rm
    by (simp add: create_docker_build_ctx_def mkdtemp_def scratch_directory_def then_do_def)
  with d show ?thesis by simp
qed

lemma copytree_Inr:
  "copytree os src dst fs = (Inr v, fs') \<Longrightarrow>
     fs src = Some Dir \<and> \<not> prefix src dst
     \<and> fs' = (\<lambda>p. if prefix dst p then fs (src @ drop (length dst) p) else fs p)"
  by (auto simp: copytree_def split: if_splits option.splits)

lemma write_file_Inr:
  "write_file flt q txt fs = (Inr v, fs') \<Longrightarrow> fs' = fs(q \<mapsto> File txt)"
  by (auto simp: write_file_def split: if_splits)

lemma make_tarfile_Inr:
  "make_tarfile flt out src arc fs = (Inr v, fs') \<Longrightarrow>
     fs' = fs(out \<mapsto> Tarball (\<lambda>p. case p of [] \<Rightarrow> None
                 | r # rel \<Rightarrow> if r = arc then fs (src @ rel) else None))"
  by (auto simp: make_tarfile_def split: if_splits)

lemma create_Inr_scratch:
  assumes "fst (create_docker_build_ctx os work_dir recipe fs) = Inr out"
  obtains d where "scratch_directory os fs = Some d"
  using assms
  by (cases "scratch_directory os fs")
     (auto simp: create_docker_build_ctx_def mkdtemp_def scratch_directory_def then_do_def)

lemma archive_contents:
  assumes ok: "fst (create_docker_build_ctx os work_dir recipe fs) = Inr out"
  shows "\<exists>t. snd (create_docker_build_ctx os work_dir recipe fs) out = Some (Tarball t)
           \<and> t [] = None
           \<and> (\<forall>r rel. r \<noteq> PROJECT_TAR_ARCHIVE_NAME \<longrightarrow> t (r # rel) = None)
           \<and> t [PROJECT_TAR_ARCHIVE_NAME] = Some Dir
           \<and> t [PROJECT_TAR_ARCHIVE_NAME, GENERATED_DOCKERFILE_NAME] = Some (File recipe)
           \<and> (\<forall>rel. rel \<noteq> [GENERATED_DOCKERFILE_NAME] \<longrightarrow>
                 t (PROJECT_TAR_ARCHIVE_NAME # rel) = fs (work_dir @ rel))"
proof -
  from ok obtain d where sd: "scratch_directory os fs = Some d" by (rule create_Inr_scratch)
  have nf: "rmtree_fault os = None"
  proof (cases "rmtree_fault os")
    case None then show ?thesis .
  next
    case (Some removed)
    from create_rmtree_fault [OF sd this, of work_dir recipe] ok show ?thesis by simp
  qed
  from sd nf obtain r fs1 fs2 where
    body: "build_ctx_try os d work_dir recipe (fs(d \<mapsto> Dir)) = (r, fs1)"
    and rm: "rmtree None d fs1 = (Inr (), fs2)"
    and c: "create_docker_build_ctx os work_dir recipe fs = (r, fs2)"
    by (rule create_cases [where work_dir = work_dir and contents = recipe])
  from c ok have r: "r = Inr out" by simp
  from sd obtain n where fresh_d: "fs d = None" and d: "d = tempdir os @ [n]"
    unfolding scratch_directory_def by (auto dest: first_fresh_Some)
  let ?fs0 = "fs(d \<mapsto> Dir)"
  let ?dst = "d @ [''wandb-project-contents'']"
  let ?df = "?dst @ [GENERATED_DOCKERFILE_NAME]"
  from body r have run: "then_do (copytree os work_dir ?dst ?fs0) (\<lambda>_ fs1.
      then_do (write_file (write_fault os) ?df recipe fs1) (\<lambda>_ fs2.
      then_do (mkstemp os fs2) (\<lambda>result_path fs3.
      then_do (make_tarfile (tar_fault os) result_path ?dst PROJECT_TAR_ARCHIVE_NAME fs3)
        (\<lambda>_ fs4. (Inr result_path, fs4))))) = (Inr out, fs1)"
    by (simp add: build_ctx_try_def Let_def)
  from run obtain v1 fsA where
    cp: "copytree os work_dir ?dst ?fs0 = (Inr v1, fsA)"
    and run2: "then_do (write_file (write_fault os) ?df recipe fsA) (\<lambda>_ fs2.
      then_do (mkstemp os fs2) (\<lambda>result_path fs3.
      then_do (make_tarfile (tar_fault os) result_path ?dst PROJECT_TAR_ARCHIVE_NAME fs3)
        (\<lambda>_ fs4. (Inr result_path, fs4)))) = (Inr out, fs1)"
    by (cases rule: then_do_cases) auto
  from run2 obtain v2 fsB where
    wr: "write_file (write_fault os) ?df recipe fsA = (Inr v2, fsB)"
    and run3: "then_do (mkstemp os fsB) (\<lambda>result_path fs3.
      then_do (make_tarfile (tar_fault os) result_path ?dst PROJECT_TAR_ARCHIVE_NAME fs3)
        (\<lambda>_ fs4. (Inr result_path, fs4))) = (Inr out, fs1)"
    by (cases rule: then_do_cases) auto
  from run3 obtain f fsC where
    mk: "mkstemp os fsB = (Inr f, fsC)"
    and run4: "then_do (make_tarfile (tar_fault os) f ?dst PROJECT_TAR_ARCHIVE_NAME fsC)
        (\<lambda>_ fs4. (Inr f, fs4)) = (Inr out, fs1)"
    by (cases rule: then_do_cases) auto
  from run4 obtain v4 where
    tar: "make_tarfile (tar_fault os) f ?dst PROJECT_TAR_ARCHIVE_NAME fsC = (Inr v4, fs1)"
    and out: "out = f"
    by (cases rule: then_do_cases) auto
  from copytree_Inr [OF cp] have
    src: "\<not> prefix work_dir ?dst"
    and fsA: "fsA = (\<lambda>p. if prefix ?dst p then ?fs0 (work_dir @ drop (length ?dst) p) else ?fs0 p)"
    and wd: "?fs0 work_dir = Some Dir"
    by simp_all
  from write_file_Inr [OF wr] have fsB: "fsB = fsA(?df \<mapsto> File recipe)" .
  from mkstemp_Inr [OF mk] obtain m where
    fresh_f: "fsB f = None" and fsC: "fsC = fsB(f \<mapsto> File [])" and f: "f = tempdir os @ [m]"
    by blast
  let ?t = "\<lambda>p. case p of [] \<Rightarrow> None
             | r # rel \<Rightarrow> if r = PROJECT_TAR_ARCHIVE_NAME then fsC (?dst @ rel) else None"
  from make_tarfile_Inr [OF tar] have fs1: "fs1 = fsC(f \<mapsto> Tarball ?t)" .
  have fsB_d: "fsB d = Some Dir"
    by (simp add: fsB fsA prefix_def)
  with fresh_f have "d \<noteq> f" by auto
  with d f have not_under: "\<not> prefix d f" by (auto simp: prefix_def)
  have inside: "f \<noteq> ?dst @ rel" for rel
    using f d by (auto dest: arg_cong [where f = length])
  have copied: "fsC (?dst @ rel) = (if rel = [GENERATED_DOCKERFILE_NAME] then Some (File recipe)
                  else ?fs0 (work_dir @ rel))" for rel
    using inside [of rel] by (auto simp: fsC fsB fsA)
  have orig: "?fs0 (work_dir @ rel) = fs (work_dir @ rel)" for rel
  proof (cases "work_dir @ rel = d")
    case True
    then have "?dst = work_dir @ (rel @ [''wandb-project-contents''])" by simp
    then have "prefix work_dir ?dst" by (rule prefixI)
    with src show ?thesis by simp
  next
    case False then show ?thesis by simp
  qed
  from rmtree_other [OF rm not_under] fs1 c out
  have 1: "snd (create_docker_build_ctx os work_dir recipe fs) out = Some (Tarball ?t)" by simp
  have 2: "?t [] = None" by simp
  have 3: "\<forall>r rel. r \<noteq> PROJECT_TAR_ARCHIVE_NAME \<longrightarrow> ?t (r # rel) = None" by simp
  have 4: "?t [PROJECT_TAR_ARCHIVE_NAME] = Some Dir"
    using copied [of "[]"] orig [of "[]"] wd fresh_d
    by (auto split: if_splits)
  have 5: "?t [PROJECT_TAR_ARCHIVE_NAME, GENERATED_DOCKERFILE_NAME] = Some (File recipe)"
    using copied [of "[GENERATED_DOCKERFILE_NAME]"] by simp
  have 6: "\<forall>rel. rel \<noteq> [GENERATED_DOCKERFILE_NAME] \<longrightarrow>
             ?t (PROJECT_TAR_ARCHIVE_NAME # rel) = fs (work_dir @ rel)"
    using copied orig by simp
  from 1 2 3 4 5 6 show ?thesis by blast
qed

lemma create_fst:
  assumes "scratch_directory os fs = Some d" and "rmtree_fault os = None"
  shows "fst (create_docker_build_ctx os work_dir contents fs) =
           fst (build_ctx_try os d work_dir contents (fs(d \<mapsto> Dir)))"
proof -
  from assms obtain r fs1 fs2 where
    "build_ctx_try os d work_dir contents (fs(d \<mapsto> Dir)) = (r, fs1)"
    "create_docker_build_ctx os work_dir contents fs = (r, fs2)"
    by (rule create_cases [where work_dir = work_dir and contents = contents])
  then show ?thesis by simp
qed

lemma example_scratch: "scratch_directory example_os example_fs = Some [''tmp'', ''a'']"
  by (simp add: scratch_directory_def example_fs_def example_os_def)

lemma example_no_fault: "rmtree_fault example_os = None"
  by (simp add: example_os_def)

lemma example_run:
  "fst (create_docker_build_ctx example_os [''proj''] contents example_fs) = Inr [''tmp'', ''b'']"
  unfolding create_fst [OF example_scratch example_no_fault]
  by (simp add: build_ctx_try_def then_do_def mkstemp_def
      copytree_def write_file_def make_tarfile_def example_fs_def example_os_def
      GENERATED_DOCKERFILE_NAME_def PROJECT_TAR_ARCHIVE_NAME_def Let_def)

lemma example_run_fault:
  "fst (create_docker_build_ctx (example_os\<lparr>tar_fault := True\<rparr>) [''proj''] contents example_fs)
     = Inl OSError"
proof -
  have "scratch_directory (example_os\<lparr>tar_fault := True\<rparr>) example_fs = Some [''tmp'', ''a'']"
    by (simp add: scratch_directory_def example_fs_def example_os_def)
  moreover have "rmtree_fault (example_os\<lparr>tar_fault := True\<rparr>) = None"
    by (simp add: example_os_def)
  ultimately have "fst (create_docker_build_ctx (example_os\<lparr>tar_fault := True\<rparr>) [''proj'']
      contents example_fs) = fst (build_ctx_try (example_os\<lparr>tar_fault := True\<rparr>) [''tmp'', ''a'']
      [''proj''] contents (example_fs([''tmp'', ''a''] \<mapsto> Dir)))"
    by (rule create_fst)
  then show ?thesis
    by (simp add: build_ctx_try_def then_do_def mkstemp_def
      copytree_def write_file_def make_tarfile_def example_fs_def example_os_def
      GENERATED_DOCKERFILE_NAME_def PROJECT_TAR_ARCHIVE_NAME_def Let_def)
qed

section \<open>Properties of the Build-Context Packager\<close>

text \<open>
  C1, as amended. The \<open>finally\<close> clause runs \<open>rmtree\<close> on the scratch directory on every
  exit path of the packager, whatever the copy, the recipe write and the archiving did.
  When \<open>mkdtemp\<close> finds no free name, the call raises and the file system is as before
  (no scratch directory was allocated); when it allocates \<open>d\<close> and the removal itself
  meets no fault, no path at or below \<open>d\<close> exists once the call has returned or raised.
\<close>

theorem scratch_directory_removed:
  "(scratch_directory os fs = None \<longrightarrow>
      create_docker_build_ctx os work_dir contents fs = (Inl FileExistsError, fs))
   \<and> (\<forall>d p. scratch_directory os fs = Some d \<and> rmtree_fault os = None \<and> prefix d p \<longrightarrow>
         snd (create_docker_build_ctx os work_dir contents fs) p = None)"
proof (intro conjI impI allI)
  assume "scratch_directory os fs = None"
  then show "create_docker_build_ctx os work_dir contents fs = (Inl FileExistsError, fs)"
    by (simp add: create_docker_build_ctx_def mkdtemp_def scratch_directory_def then_do_def)
next
  fix d p
  assume a: "scratch_directory os fs = Some d \<and> rmtree_fault os = None \<and> prefix d p"
  then have s: "scratch_directory os fs = Some d" and nf: "rmtree_fault os = None"
    and p: "prefix d p" by simp_all
  from s nf obtain r fs1 fs2 where
    rm: "rmtree None d fs1 = (Inr (), fs2)"
    and c: "create_docker_build_ctx os work_dir contents fs = (r, fs2)"
    by (rule create_cases [where work_dir = work_dir and contents = contents])
  from rmtree_removes [OF rm p] c
  show "snd (create_docker_build_ctx os work_dir contents fs) p = None" by simp
qed

theorem scratch_directory_removed_witness:
  "scratch_directory example_os example_fs = Some [''tmp'', ''a'']
   \<and> fst (create_docker_build_ctx example_os [''proj''] ''FROM new'' example_fs)
       = Inr [''tmp'', ''b'']
   \<and> snd (create_docker_build_ctx example_os [''proj''] ''FROM new'' example_fs)
        [''tmp'', ''a''] = None
   \<and> snd (create_docker_build_ctx example_os [''proj''] ''FROM new'' example_fs)
        [''tmp'', ''a'', ''wandb-project-contents'', ''train.py''] = None
   \<and> fst (create_docker_build_ctx (example_os\<lparr>tar_fault := True\<rparr>) [''proj''] ''FROM new''
          example_fs) = Inl OSError
   \<and> snd (create_docker_build_ctx (example_os\<lparr>tar_fault := True\<rparr>) [''proj''] ''FROM new''
          example_fs) [''tmp'', ''a'', ''wandb-project-contents''] = None"
proof -
  have s2: "scratch_directory (example_os\<lparr>tar_fault := True\<rparr>) example_fs = Some [''tmp'', ''a'']"
    by (simp add: scratch_directory_def example_fs_def example_os_def)
  have n2: "rmtree_fault (example_os\<lparr>tar_fault := True\<rparr>) = None"
    by (simp add: example_os_def)
  have gone: "snd (create_docker_build_ctx os work_dir contents fs) p = None"
    if "scratch_directory os fs = Some d" "rmtree_fault os = None" "prefix d p"
    for os fs d p work_dir contents
    using scratch_directory_removed [of os fs work_dir contents] that by blast
  have "snd (create_docker_build_ctx example_os [''proj''] ''FROM new'' example_fs)
          [''tmp'', ''a''] = None"
    by (rule gone [OF example_scratch example_no_fault]) simp
  moreover have "snd (create_docker_build_ctx example_os [''proj''] ''FROM new'' example_fs)
        [''tmp'', ''a'', ''wandb-project-contents'', ''train.py''] = None"
    by (rule gone [OF example_scratch example_no_fault]) simp
  moreover have "snd (create_docker_build_ctx (example_os\<lparr>tar_fault := True\<rparr>) [''proj''] ''FROM new''
          example_fs) [''tmp'', ''a'', ''wandb-project-contents''] = None"
    by (rule gone [OF s2 n2]) simp
  ultimately show ?thesis
    using example_scratch example_run [of "''FROM new''"] example_run_fault [of "''FROM new''"]
    by simp
qed

theorem scratch_directory_removed_counterexample:
  "scratch_directory (example_os\<lparr>rmtree_fault := Some (\<lambda>p. False)\<rparr>) example_fs
     = Some [''tmp'', ''a'']
   \<and> fst (create_docker_build_ctx (example_os\<lparr>rmtree_fault := Some (\<lambda>p. False)\<rparr>) [''proj'']
          ''FROM new'' example_fs) = Inl PermissionError
   \<and> snd (create_docker_build_ctx (example_os\<lparr>rmtree_fault := Some (\<lambda>p. False)\<rparr>) [''proj'']
          ''FROM new'' example_fs) [''tmp'', ''a''] = Some Dir"
proof -
  have s: "scratch_directory (example_os\<lparr>rmtree_fault := Some (\<lambda>p. False)\<rparr>) example_fs
             = Some [''tmp'', ''a'']"
    by (simp add: scratch_directory_def example_fs_def example_os_def)
  have f: "rmtree_fault (example_os\<lparr>rmtree_fault := Some (\<lambda>p. False)\<rparr>) = Some (\<lambda>p. False)"
    by simp
  from create_rmtree_fault [OF s f, of "[''proj'']" "''FROM new''"] s show ?thesis by simp
qed

text \<open>
  C6, as amended. When the packager returns an archive path, the archive there has
  exactly one top-level entry, the directory named by the fixed archive-root name; under
  that root the recipe stands under its fixed file name with the text given, and every
  other path under the root holds exactly what the same path under the project
  directory held before the call (so every file of the project is there with its bytes
  unchanged, and nothing else is), apart from the path of the recipe itself.
\<close>

theorem archive_containment:
  assumes "fst (create_docker_build_ctx os work_dir recipe fs) = Inr out"
  shows "archive_entry (snd (create_docker_build_ctx os work_dir recipe fs)) out [] = None
       \<and> (\<forall>r rel. r \<noteq> PROJECT_TAR_ARCHIVE_NAME \<longrightarrow>
             archive_entry (snd (create_docker_build_ctx os work_dir recipe fs)) out (r # rel)
               = None)
       \<and> archive_entry (snd (create_docker_build_ctx os work_dir recipe fs)) out
           [PROJECT_TAR_ARCHIVE_NAME] = Some Dir
       \<and> archive_entry (snd (create_docker_build_ctx os work_dir recipe fs)) out
           [PROJECT_TAR_ARCHIVE_NAME, GENERATED_DOCKERFILE_NAME] = Some (File recipe)
       \<and> (\<forall>rel. rel \<noteq> [GENERATED_DOCKERFILE_NAME] \<longrightarrow>
             archive_entry (snd (create_docker_build_ctx os work_dir recipe fs)) out
               (PROJECT_TAR_ARCHIVE_NAME # rel) = fs (work_dir @ rel))"
proof -
  from archive_contents [OF assms] obtain t where
    "snd (create_docker_build_ctx os work_dir recipe fs) out = Some (Tarball t)"
    "t [] = None"
    "\<forall>r rel. r \<noteq> PROJECT_TAR_ARCHIVE_NAME \<longrightarrow> t (r # rel) = None"
    "t [PROJECT_TAR_ARCHIVE_NAME] = Some Dir"
    "t [PROJECT_TAR_ARCHIVE_NAME, GENERATED_DOCKERFILE_NAME] = Some (File recipe)"
    "\<forall>rel. rel \<noteq> [GENERATED_DOCKERFILE_NAME] \<longrightarrow>
         t (PROJECT_TAR_ARCHIVE_NAME # rel) = fs (work_dir @ rel)"
    by blast
  then show ?thesis by (simp add: archive_entry_def)
qed

theorem archive_containment_witness:
  "fst (create_docker_build_ctx example_os [''proj''] ''FROM new'' example_fs)
     = Inr [''tmp'', ''b'']
   \<and> archive_entry (snd (create_docker_build_ctx example_os [''proj''] ''FROM new'' example_fs))
       [''tmp'', ''b''] [''wandb-project-docker-build-context''] = Some Dir
   \<and> archive_entry (snd (create_docker_build_ctx example_os [''proj''] ''FROM new'' example_fs))
       [''tmp'', ''b''] [''wandb-project-docker-build-context'', ''train.py'']
       = Some (File ''print(1)'')
   \<and> archive_entry (snd (create_docker_build_ctx example_os [''proj''] ''FROM new'' example_fs))
       [''tmp'', ''b''] [''wandb-project-contents''] = None"
  using archive_containment [OF example_run [of "''FROM new''"]]
        example_run [of "''FROM new''"]
  by (simp add: PROJECT_TAR_ARCHIVE_NAME_def GENERATED_DOCKERFILE_NAME_def example_fs_def)

theorem archive_containment_counterexample:
  "example_fs ([''proj''] @ [''Dockerfile.wandb-autogenerated'']) = Some (File ''FROM old'')
   \<and> fst (create_docker_build_ctx example_os [''proj''] ''FROM new'' example_fs)
       = Inr [''tmp'', ''b'']
   \<and> archive_entry (snd (create_docker_build_ctx example_os [''proj''] ''FROM new'' example_fs))
       [''tmp'', ''b''] [''wandb-project-docker-build-context'', ''Dockerfile.wandb-autogenerated'']
       = Some (File ''FROM new'')"
proof -
  from archive_contents [OF example_run [of "''FROM new''"]] obtain t where
    "snd (create_docker_build_ctx example_os [''proj''] ''FROM new'' example_fs) [''tmp'', ''b'']
       = Some (Tarball t)"
    "t [PROJECT_TAR_ARCHIVE_NAME, GENERATED_DOCKERFILE_NAME] = Some (File ''FROM new'')"
    by blast
  then have "archive_entry
       (snd (create_docker_build_ctx example_os [''proj''] ''FROM new'' example_fs))
       [''tmp'', ''b''] [''wandb-project-docker-build-context'', ''Dockerfile.wandb-autogenerated'']
       = Some (File ''FROM new'')"
    by (simp add: archive_entry_def PROJECT_TAR_ARCHIVE_NAME_def GENERATED_DOCKERFILE_NAME_def)
  moreover have "example_fs ([''proj''] @ [''Dockerfile.wandb-autogenerated''])
       = Some (File ''FROM old'')"
    by (simp add: example_fs_def)
  ultimately show ?thesis using example_run [of "''FROM new''"] by simp
qed

section \<open>The steps of the Image Builder\<close>

lemma split_on_length: "length (split_on sep s) = Suc (count_list s sep)"
  by (induction s) (auto split: list.splits)

lemma three_parts:
  "length xs = 3 \<longleftrightarrow> (\<exists>a b c. xs = [a, b, c])"
  by (auto simp: length_Suc_conv eval_nat_numeral)

lemma resolve_base_url_local:
  assumes "is_wandb_local_uri env (settings_base_url api)"
  shows "resolve_base_url env api =
           (if count_list (settings_base_url api) (CHR '':'') = 2
            then Inr (''http://host.docker.internal:'' @ last (split_on (CHR '':'') (settings_base_url api)))
            else Inl ValueError)"
proof (cases "count_list (settings_base_url api) (CHR '':'') = 2")
  case True
  then have "length (split_on (CHR '':'') (settings_base_url api)) = 3"
    by (simp add: split_on_length)
  then obtain a b c where "split_on (CHR '':'') (settings_base_url api) = [a, b, c]"
    by (auto simp: three_parts)
  with assms True show ?thesis by (simp add: resolve_base_url_def)
next
  case False
  then have "length (split_on (CHR '':'') (settings_base_url api)) \<noteq> 3"
    by (simp add: split_on_length)
  then have "\<nexists>a b c. split_on (CHR '':'') (settings_base_url api) = [a, b, c]"
    by (simp add: three_parts)
  with assms False show ?thesis
    by (auto simp: resolve_base_url_def split: list.splits)
qed

lemma resolve_base_url_error: "resolve_base_url env api = Inl e \<Longrightarrow> e = ValueError"
  by (auto simp: resolve_base_url_def split: if_splits list.splits)

lemma build_raises_early:
  "resolve_base_url env api = Inl e \<Longrightarrow>
     build_docker_image env project uri base_image api w = (Inl e, w)"
  by (simp add: build_docker_image_def)

lemma build_missing_key:
  assumes "resolve_base_url env api = Inr url"
      and "docker_env project ''WANDB_PROJECT'' = None \<or> docker_env project ''WANDB_ENTITY'' = None"
  shows "build_docker_image env project uri base_image api w =
           (Inl (KeyError (if docker_env project ''WANDB_PROJECT'' = None
                           then ''WANDB_PROJECT'' else ''WANDB_ENTITY'')), w)"
  using assms by (auto simp: build_docker_image_def split: option.splits)

lemma dockerfile_text_lines:
  "dockerfile_text b wd url key p e n = unlines (recipe_lines b wd url key p e n)"
  by (cases n) (simp_all add: dockerfile_text_def recipe_lines_def unlines_def
      PROJECT_TAR_ARCHIVE_NAME_def)

lemma build_after_lookups:
  assumes "resolve_base_url env api = Inr url"
      and "docker_env project ''WANDB_PROJECT'' = Some wp"
      and "docker_env project ''WANDB_ENTITY'' = Some we"
      and "create_docker_build_ctx (host_os env) (dir project)
             (dockerfile_text base_image (WANDB_DOCKER_WORKDIR_PATH env) url (api_key api)
                wp we (name project)) (files w) = (Inr out, fs1)"
      and "fs1 out = Some (Tarball t)"
  shows "build_docker_image env project uri base_image api w =
     (let request =
            \<lparr>req_tag = get_docker_image_uri uri (last_commit env (dir project)),
             req_forcerm = True,
             req_dockerfile = PROJECT_TAR_ARCHIVE_NAME @ ''/'' @ GENERATED_DOCKERFILE_NAME,
             req_fileobj = Tarball t, req_custom_context = True, req_encoding = ''gzip''\<rparr>;
          w1 = w\<lparr>files := fs1, engine_calls := engine_calls w @ [request]\<rparr>
      in case images_build env request of
           Inl e \<Rightarrow> (Inl e, w1)
         | Inr built_image \<Rightarrow> (Inr built_image, w1\<lparr>files := snd (os_remove out fs1)\<rparr>))"
  unfolding build_docker_image_def Let_def
  by (simp add: assms)

lemma build_packaging_raises:
  assumes "resolve_base_url env api = Inr url"
      and "docker_env project ''WANDB_PROJECT'' = Some wp"
      and "docker_env project ''WANDB_ENTITY'' = Some we"
      and "create_docker_build_ctx (host_os env) (dir project)
             (dockerfile_text base_image (WANDB_DOCKER_WORKDIR_PATH env) url (api_key api)
                wp we (name project)) (files w) = (Inl e, fs1)"
  shows "build_docker_image env project uri base_image api w = (Inl e, w\<lparr>files := fs1\<rparr>)"
  unfolding build_docker_image_def Let_def
  by (simp add: assms)


lemma build_docker_image_success:
  assumes ok: "fst (build_docker_image env project uri base_image api w) = Inr img"
  shows "\<exists>url wp we out t.
           resolve_base_url env api = Inr url
         \<and> docker_env project ''WANDB_PROJECT'' = Some wp
         \<and> docker_env project ''WANDB_ENTITY'' = Some we
         \<and> fst (create_docker_build_ctx (host_os env) (dir project)
                  (dockerfile_text base_image (WANDB_DOCKER_WORKDIR_PATH env) url (api_key api)
                     wp we (name project)) (files w)) = Inr out
         \<and> engine_calls (snd (build_docker_image env project uri base_image api w)) =
             engine_calls w @
               [\<lparr>req_tag = get_docker_image_uri uri (last_commit env (dir project)),
                 req_forcerm = True,
                 req_dockerfile = PROJECT_TAR_ARCHIVE_NAME @ ''/'' @ GENERATED_DOCKERFILE_NAME,
                 req_fileobj = Tarball t, req_custom_context = True, req_encoding = ''gzip''\<rparr>]
         \<and> t [PROJECT_TAR_ARCHIVE_NAME, GENERATED_DOCKERFILE_NAME] =
             Some (File (dockerfile_text base_image (WANDB_DOCKER_WORKDIR_PATH env) url
                           (api_key api) wp we (name project)))"
proof -
  obtain url where url: "resolve_base_url env api = Inr url"
  proof (cases "resolve_base_url env api")
    case (Inl e)
    from build_raises_early [OF this] ok show ?thesis by simp
  next
    case (Inr u) then show ?thesis by (rule that)
  qed
  have "\<not> (docker_env project ''WANDB_PROJECT'' = None \<or> docker_env project ''WANDB_ENTITY'' = None)"
  proof
    assume "docker_env project ''WANDB_PROJECT'' = None \<or> docker_env project ''WANDB_ENTITY'' = None"
    from build_missing_key [OF url this] ok show False by simp
  qed
  then obtain wp we where wp: "docker_env project ''WANDB_PROJECT'' = Some wp"
    and we: "docker_env project ''WANDB_ENTITY'' = Some we" by auto
  let ?text = "dockerfile_text base_image (WANDB_DOCKER_WORKDIR_PATH env) url (api_key api)
                 wp we (name project)"
  let ?ctx = "create_docker_build_ctx (host_os env) (dir project) ?text (files w)"
  obtain out where out: "fst ?ctx = Inr out"
  proof (cases "fst ?ctx")
    case (Inl e)
    then have "?ctx = (Inl e, snd ?ctx)" by (cases ?ctx) simp
    from build_packaging_raises [OF url wp we this] ok show ?thesis by simp
  next
    case (Inr p) then show ?thesis by (rule that)
  qed
  from archive_contents [OF out] obtain t where
    t: "snd ?ctx out = Some (Tarball t)"
    and df: "t [PROJECT_TAR_ARCHIVE_NAME, GENERATED_DOCKERFILE_NAME] = Some (File ?text)"
    by blast
  from out have ctx: "?ctx = (Inr out, snd ?ctx)" by (cases ?ctx) simp
  have "engine_calls (snd (build_docker_image env project uri base_image api w)) =
          engine_calls w @
               [\<lparr>req_tag = get_docker_image_uri uri (last_commit env (dir project)),
                 req_forcerm = True,
                 req_dockerfile = PROJECT_TAR_ARCHIVE_NAME @ ''/'' @ GENERATED_DOCKERFILE_NAME,
                 req_fileobj = Tarball t, req_custom_context = True, req_encoding = ''gzip''\<rparr>]"
    unfolding build_after_lookups [OF url wp we ctx t] Let_def
    by (simp split: sum.splits)
  with url wp we out df show ?thesis by blast
qed

lemma example_build:
  "fst (build_docker_image example_env example_project (Some ''my repo'') ''python:3.9''
          \<lparr>settings_base_url = ''http://localhost:8080'', api_key = ''key''\<rparr> example_world)
     = Inr ''image-1''"
proof -
  let ?api = "\<lparr>settings_base_url = ''http://localhost:8080'', api_key = ''key''\<rparr>"
  let ?text = "dockerfile_text ''python:3.9'' (WANDB_DOCKER_WORKDIR_PATH example_env)
                 ''http://host.docker.internal:8080''
                 (api_key ?api) ''mnist'' ''team'' (name example_project)"
  let ?ctx = "create_docker_build_ctx (host_os example_env) (dir example_project) ?text
                (files example_world)"
  have run: "fst ?ctx = Inr [''tmp'', ''b'']"
    using example_run [of ?text]
    by (simp add: example_env_def example_project_def example_world_def)
  from archive_contents [OF run] obtain t where t: "snd ?ctx [''tmp'', ''b''] = Some (Tarball t)"
    by blast
  from run have ctx: "?ctx = (Inr [''tmp'', ''b''], snd ?ctx)" by (cases ?ctx) simp
  have url: "resolve_base_url example_env ?api = Inr ''http://host.docker.internal:8080''"
    by (simp add: resolve_base_url_def example_env_def)
  have wp: "docker_env example_project ''WANDB_PROJECT'' = Some ''mnist''"
    by (simp add: example_project_def)
  have we: "docker_env example_project ''WANDB_ENTITY'' = Some ''team''"
    by (simp add: example_project_def)
  show ?thesis
    unfolding build_after_lookups [OF url wp we ctx t] Let_def
    by (simp add: example_env_def)
qed

section \<open>Properties of the Image Builder and the Environment Validator\<close>



text \<open>
  C5, as amended. For a descriptor whose \<open>docker_env\<close> lacks \<open>WANDB_PROJECT\<close> or
  \<open>WANDB_ENTITY\<close>, \<open>build_docker_image\<close> raises and leaves the file system and the build
  engine untouched: the lookup failure \<open>KeyError\<close> for the first missing key when the
  base URL resolves, and the \<open>ValueError\<close> of the port unpacking when it does not.
\<close>

theorem validation_gating:
  assumes "docker_env project ''WANDB_PROJECT'' = None \<or> docker_env project ''WANDB_ENTITY'' = None"
  shows "snd (build_docker_image env project uri base_image api w) = w
       \<and> fst (build_docker_image env project uri base_image api w) =
           (if is_wandb_local_uri env (settings_base_url api)
               \<and> count_list (settings_base_url api) (CHR '':'') \<noteq> 2
            then Inl ValueError
            else Inl (KeyError (if docker_env project ''WANDB_PROJECT'' = None
                                then ''WANDB_PROJECT'' else ''WANDB_ENTITY'')))"
proof (cases "resolve_base_url env api")
  case (Inl e)
  have "is_wandb_local_uri env (settings_base_url api)
          \<and> count_list (settings_base_url api) (CHR '':'') \<noteq> 2"
  proof (cases "is_wandb_local_uri env (settings_base_url api)")
    case True
    from resolve_base_url_local [OF this] Inl True show ?thesis by (auto split: if_splits)
  next
    case False
    with Inl show ?thesis by (simp add: resolve_base_url_def split: if_splits)
  qed
  with resolve_base_url_error [OF Inl] build_raises_early [OF Inl] show ?thesis by simp
next
  case (Inr url)
  have "\<not> (is_wandb_local_uri env (settings_base_url api)
          \<and> count_list (settings_base_url api) (CHR '':'') \<noteq> 2)"
  proof
    assume a: "is_wandb_local_uri env (settings_base_url api)
          \<and> count_list (settings_base_url api) (CHR '':'') \<noteq> 2"
    then have "is_wandb_local_uri env (settings_base_url api)" by simp
    from resolve_base_url_local [OF this] a Inr show False by simp
  qed
  with build_missing_key [OF Inr assms] show ?thesis by simp
qed

theorem validation_gating_witness:
  "docker_env (example_project\<lparr>docker_env := [''WANDB_ENTITY'' \<mapsto> ''team'']\<rparr>) ''WANDB_PROJECT''
     = None
   \<and> build_docker_image example_env
       (example_project\<lparr>docker_env := [''WANDB_ENTITY'' \<mapsto> ''team'']\<rparr>) None ''python:3.9''
       \<lparr>settings_base_url = ''https://api.example.com'', api_key = ''key''\<rparr> example_world
     = (Inl (KeyError ''WANDB_PROJECT''), example_world)
   \<and> build_docker_image example_env
       (example_project\<lparr>docker_env := [''WANDB_PROJECT'' \<mapsto> ''mnist'']\<rparr>) None ''python:3.9''
       \<lparr>settings_base_url = ''https://api.example.com'', api_key = ''key''\<rparr> example_world
     = (Inl (KeyError ''WANDB_ENTITY''), example_world)"
  using validation_gating [of "example_project\<lparr>docker_env := [''WANDB_ENTITY'' \<mapsto> ''team'']\<rparr>"
          example_env None "''python:3.9''"
          "\<lparr>settings_base_url = ''https://api.example.com'', api_key = ''key''\<rparr>" example_world]
        validation_gating [of "example_project\<lparr>docker_env := [''WANDB_PROJECT'' \<mapsto> ''mnist'']\<rparr>"
          example_env None "''python:3.9''"
          "\<lparr>settings_base_url = ''https://api.example.com'', api_key = ''key''\<rparr>" example_world]
  by (simp add: prod_eq_iff example_env_def example_project_def)

theorem validation_gating_counterexample:
  "docker_env (example_project\<lparr>docker_env := Map.empty\<rparr>) ''WANDB_PROJECT'' = None
   \<and> build_docker_image example_env (example_project\<lparr>docker_env := Map.empty\<rparr>) None
       ''python:3.9'' \<lparr>settings_base_url = ''http://localhost'', api_key = ''key''\<rparr>
       example_world
     = (Inl ValueError, example_world)"
proof -
  have "resolve_base_url example_env \<lparr>settings_base_url = ''http://localhost'', api_key = ''key''\<rparr>
          = Inl ValueError"
    by (simp add: resolve_base_url_def example_env_def)
  from build_raises_early [OF this] show ?thesis by simp
qed

text \<open>
  C7. The recipe the code renders is the line sequence of the specification, each line
  ended by a line break: \<open>FROM\<close>, \<open>COPY\<close>, \<open>WORKDIR\<close>, the four \<open>ENV\<close> lines for base URL,
  API key, project and entity, the \<open>ENV WANDB_NAME\<close> line exactly when the descriptor's
  name is set (present and not empty), \<open>ENV WANDB_LAUNCH=True\<close> and \<open>USER root\<close>. When
  \<open>build_docker_image\<close> returns an image, the recipe in the archive it handed to the
  build engine is that sequence for the base image, the working directory constant, the
  resolved base URL, the API key, the two looked-up identifiers and the name.
\<close>

theorem recipe_line_sequence:
  "dockerfile_text b wd u k p e n = unlines (recipe_lines b wd u k p e n)
   \<and> (fst (build_docker_image env project uri base_image api w) = Inr img
      \<longrightarrow> (\<exists>url wp we t.
             resolve_base_url env api = Inr url
           \<and> docker_env project ''WANDB_PROJECT'' = Some wp
           \<and> docker_env project ''WANDB_ENTITY'' = Some we
           \<and> req_fileobj (last (engine_calls (snd (build_docker_image env project uri
                 base_image api w)))) = Tarball t
           \<and> t [PROJECT_TAR_ARCHIVE_NAME, GENERATED_DOCKERFILE_NAME] =
               Some (File (unlines (recipe_lines base_image (WANDB_DOCKER_WORKDIR_PATH env)
                                      url (api_key api) wp we (name project))))))"
proof (intro conjI impI)
  show "dockerfile_text b wd u k p e n = unlines (recipe_lines b wd u k p e n)"
    by (rule dockerfile_text_lines)
next
  assume "fst (build_docker_image env project uri base_image api w) = Inr img"
  from build_docker_image_success [OF this] obtain url wp we t where
    "resolve_base_url env api = Inr url"
    "docker_env project ''WANDB_PROJECT'' = Some wp"
    "docker_env project ''WANDB_ENTITY'' = Some we"
    "engine_calls (snd (build_docker_image env project uri base_image api w)) =
             engine_calls w @
               [\<lparr>req_tag = get_docker_image_uri uri (last_commit env (dir project)),
                 req_forcerm = True,
                 req_dockerfile = PROJECT_TAR_ARCHIVE_NAME @ ''/'' @ GENERATED_DOCKERFILE_NAME,
                 req_fileobj = Tarball t, req_custom_context = True, req_encoding = ''gzip''\<rparr>]"
    "t [PROJECT_TAR_ARCHIVE_NAME, GENERATED_DOCKERFILE_NAME] =
             Some (File (dockerfile_text base_image (WANDB_DOCKER_WORKDIR_PATH env) url
                           (api_key api) wp we (name project)))"
    by blast
  then show "\<exists>url wp we t.
             resolve_base_url env api = Inr url
           \<and> docker_env project ''WANDB_PROJECT'' = Some wp
           \<and> docker_env project ''WANDB_ENTITY'' = Some we
           \<and> req_fileobj (last (engine_calls (snd (build_docker_image env project uri
                 base_image api w)))) = Tarball t
           \<and> t [PROJECT_TAR_ARCHIVE_NAME, GENERATED_DOCKERFILE_NAME] =
               Some (File (unlines (recipe_lines base_image (WANDB_DOCKER_WORKDIR_PATH env)
                                      url (api_key api) wp we (name project))))"
    by (simp add: dockerfile_text_lines)
qed

theorem recipe_line_sequence_witness:
  "dockerfile_text ''python:3.9'' ''/wandb/code'' ''https://api.example.com'' ''key'' ''mnist''
     ''team'' (Some ''run-7'')
   = unlines [''FROM python:3.9'',
        ''COPY wandb-project-docker-build-context/ /wandb/code'',
        ''WORKDIR /wandb/code'',
        ''ENV WANDB_BASE_URL=https://api.example.com'',
        ''ENV WANDB_API_KEY=key'',
        ''ENV WANDB_PROJECT=mnist'',
        ''ENV WANDB_ENTITY=team'',
        ''ENV WANDB_NAME=run-7'',
        ''ENV WANDB_LAUNCH=True'',
        ''USER root'']
   \<and> dockerfile_text ''python:3.9'' ''/wandb/code'' ''https://api.example.com'' ''key'' ''mnist''
     ''team'' None
   = unlines [''FROM python:3.9'',
        ''COPY wandb-project-docker-build-context/ /wandb/code'',
        ''WORKDIR /wandb/code'',
        ''ENV WANDB_BASE_URL=https://api.example.com'',
        ''ENV WANDB_API_KEY=key'',
        ''ENV WANDB_PROJECT=mnist'',
        ''ENV WANDB_ENTITY=team'',
        ''ENV WANDB_LAUNCH=True'',
        ''USER root'']
   \<and> (\<exists>t. req_fileobj (last (engine_calls (snd (build_docker_image example_env example_project
           (Some ''my repo'') ''python:3.9''
           \<lparr>settings_base_url = ''http://localhost:8080'', api_key = ''key''\<rparr> example_world))))
           = Tarball t
         \<and> t [PROJECT_TAR_ARCHIVE_NAME, GENERATED_DOCKERFILE_NAME] =
             Some (File (unlines [''FROM python:3.9'',
                ''COPY wandb-project-docker-build-context/ /wandb/code'',
                ''WORKDIR /wandb/code'',
                ''ENV WANDB_BASE_URL=http://host.docker.internal:8080'',
                ''ENV WANDB_API_KEY=key'',
                ''ENV WANDB_PROJECT=mnist'',
                ''ENV WANDB_ENTITY=team'',
                ''ENV WANDB_NAME=run-7'',
                ''ENV WANDB_LAUNCH=True'',
                ''USER root''])))"
proof -
  let ?api = "\<lparr>settings_base_url = ''http://localhost:8080'', api_key = ''key''\<rparr>"
  note seq = recipe_line_sequence [of _ _ _ _ _ _ _ example_env example_project
               "Some ''my repo''" "''python:3.9''" ?api example_world "''image-1''"]
  have url: "resolve_base_url example_env ?api = Inr ''http://host.docker.internal:8080''"
    by (simp add: resolve_base_url_def example_env_def)
  from seq [THEN conjunct2, rule_format, OF example_build] url
  have 3: "\<exists>t. req_fileobj (last (engine_calls (snd (build_docker_image example_env example_project
           (Some ''my repo'') ''python:3.9'' ?api example_world)))) = Tarball t
         \<and> t [PROJECT_TAR_ARCHIVE_NAME, GENERATED_DOCKERFILE_NAME] =
             Some (File (unlines (recipe_lines ''python:3.9'' ''/wandb/code''
                ''http://host.docker.internal:8080'' ''key'' ''mnist'' ''team'' (Some ''run-7''))))"
    by (auto simp: example_env_def example_project_def)
  have 1: "dockerfile_text ''python:3.9'' ''/wandb/code'' ''https://api.example.com'' ''key''
             ''mnist'' ''team'' (Some ''run-7'')
           = unlines (recipe_lines ''python:3.9'' ''/wandb/code'' ''https://api.example.com''
               ''key'' ''mnist'' ''team'' (Some ''run-7''))"
    using seq by blast
  have 2: "dockerfile_text ''python:3.9'' ''/wandb/code'' ''https://api.example.com'' ''key''
             ''mnist'' ''team'' None
           = unlines (recipe_lines ''python:3.9'' ''/wandb/code'' ''https://api.example.com''
               ''key'' ''mnist'' ''team'' None)"
    using seq by blast
  from 1 2 3 show ?thesis by (simp add: recipe_lines_def)
qed

text \<open>
  C8. \<open>validate_docker_env\<close> raises exactly when \<open>docker_env\<close> has no non-empty value under
  \<open>image\<close> (the key is absent or its value is empty); what it raises is the
  \<open>ExecutionException\<close> of the source (the specification's missing-configuration error);
  and in every case the descriptor is as it was.
\<close>

theorem validate_docker_env_iff:
  "((\<exists>e. fst (validate_docker_env project) = Inl e)
      \<longleftrightarrow> docker_env project ''image'' = None \<or> docker_env project ''image'' = Some '''')
   \<and> (\<forall>e. fst (validate_docker_env project) = Inl e \<longrightarrow> (\<exists>msg. e = ExecutionException msg))
   \<and> (fst (validate_docker_env project) = Inr ()
        \<longleftrightarrow> (\<exists>v. docker_env project ''image'' = Some v \<and> v \<noteq> ''''))
   \<and> snd (validate_docker_env project) = project"
  by (cases "docker_env project ''image''") (auto simp: validate_docker_env_def)

theorem validate_docker_env_iff_witness:
  "fst (validate_docker_env example_project) = Inr ()
   \<and> (\<exists>msg. fst (validate_docker_env (example_project\<lparr>docker_env := Map.empty\<rparr>))
              = Inl (ExecutionException msg))
   \<and> (\<exists>msg. fst (validate_docker_env (example_project\<lparr>docker_env := [''image'' \<mapsto> '''']\<rparr>))
              = Inl (ExecutionException msg))
   \<and> snd (validate_docker_env example_project) = example_project"
  using validate_docker_env_iff [of example_project]
        validate_docker_env_iff [of "example_project\<lparr>docker_env := Map.empty\<rparr>"]
        validate_docker_env_iff [of "example_project\<lparr>docker_env := [''image'' \<mapsto> '''']\<rparr>"]
  by (simp add: example_project_def validate_docker_env_def)



end
